(* ===== verification/Prelude.thy ===== *)
theory Prelude
  imports Complex_Main "HOL-Library.Word"
begin

unbundle bit_operations_syntax

text \<open>
  Shared vocabulary of the footstep-detector development (\<^verbatim>\<open>src/firmware.cpp\<close>):
  the machine-integer types of the C source, the observable effects the firmware
  produces (console output and delays), C array accesses that fail instead of
  returning an unspecified value when the index is out of range, and the
  generic lemmas on them that the component theories share.
\<close>

named_theorems c_array_simps "evaluation rules for checked C array accesses"

section \<open>Machine types\<close>

text \<open>
  \<^verbatim>\<open>int16_t\<close> and \<^verbatim>\<open>uint16_t\<close> are both 16-bit words; which one a value is
  decides only how it is read (\<open>sint\<close> or \<open>unat\<close>). Assigning a
  \<^verbatim>\<open>uint16_t\<close> to an \<^verbatim>\<open>int16_t\<close> keeps the bit pattern (C++20 modular
  conversion), so it is the identity on \<open>16 word\<close>.
\<close>

type_synonym i16 = "16 word"
type_synonym u16 = "16 word"

abbreviation nl :: string where
  "nl \<equiv> [CHR 0x0A]"

text \<open>Reading a word: the 12-bit field mask, and small words read as signed.\<close>

lemma unat_and_mask_12:
  "unat ((w :: 16 word) AND mask 12) < 4096"
proof -
  have "uint (w AND mask 12) < 2 ^ 12" by (rule and_mask_lt_2p)
  then have "int (unat (w AND mask 12)) < 4096" by simp
  then show ?thesis by linarith
qed

lemma sint_small_word:
  assumes "unat (w :: 16 word) < 32768"
  shows "sint w = int (unat w)"
proof -
  have "uint w = int (unat w)" by (rule uint_nat)
  with assms have "uint w < 32768" by linarith
  then have "signed_take_bit 15 (uint w) = uint w"
    by (intro signed_take_bit_int_eq_self) (simp_all add: order.trans[OF _ uint_ge_0])
  then show ?thesis
    by (simp add: sint_uint)
qed

lemma sint_i16_range:
  "- 32768 \<le> sint (w :: 16 word) \<and> sint w < 32768"
  using sint_ge [of w] sint_lt [of w] by simp

section \<open>Faults and effects\<close>

text \<open>
  Behaviour the C program does not define or never leaves: a write or read out of
  the bounds of an array (undefined behaviour), and a wait on a hardware flag that
  never becomes set (the ADC busy-wait in \<^verbatim>\<open>adc_read\<close> when the ADC is off).
\<close>

datatype fault = OutOfBounds | AdcHang

text \<open>
  What an observer of the board sees: \<^verbatim>\<open>stdio_init_all\<close>, text written by
  \<^verbatim>\<open>printf\<close>, and the blocking delays of \<^verbatim>\<open>sleep_ms\<close>.
\<close>

datatype io_event = StdioInit | Print string | SleepMs nat

section \<open>Checked array accesses\<close>

text \<open>\<^verbatim>\<open>a[i] = v\<close> and \<^verbatim>\<open>a[i]\<close> on a C array of fixed length.\<close>

definition c_store :: "'a list \<Rightarrow> nat \<Rightarrow> 'a \<Rightarrow> fault + 'a list" where
  "c_store xs i v = (if i < length xs then Inr (xs[i := v]) else Inl OutOfBounds)"

definition c_load :: "'a list \<Rightarrow> nat \<Rightarrow> fault + 'a" where
  "c_load xs i = (if i < length xs then Inr (xs ! i) else Inl OutOfBounds)"

lemma c_store_in_range [c_array_simps]:
  "i < length xs \<Longrightarrow> c_store xs i v = Inr (xs[i := v])"
  by (simp add: c_store_def)

lemma c_store_out_of_range [c_array_simps]:
  "length xs \<le> i \<Longrightarrow> c_store xs i v = Inl OutOfBounds"
  by (simp add: c_store_def)

lemma c_load_in_range [c_array_simps]:
  "i < length xs \<Longrightarrow> c_load xs i = Inr (xs ! i)"
  by (simp add: c_load_def)

lemma c_load_out_of_range [c_array_simps]:
  "length xs \<le> i \<Longrightarrow> c_load xs i = Inl OutOfBounds"
  by (simp add: c_load_def)

section \<open>Lists written index by index\<close>

text \<open>
  The C loops of the firmware fill a prefix of an array one index at a time. The
  list after writing indices \<open>i\<close>, \<open>i+1\<close>, \<dots> is the prefix, the new values,
  and the untouched rest.
\<close>

lemma take_update_prefix:
  assumes "i < n" "n \<le> length xs"
  shows "take i xs @ v # ws @ drop n xs = take (Suc i) (xs[i := v]) @ ws @ drop n xs"
proof -
  have "take (Suc i) (xs[i := v]) = take i xs @ [v]"
    using assms by (simp add: take_Suc_conv_app_nth)
  then show ?thesis by simp
qed

lemma upt_Suc_Cons:
  "i < n \<Longrightarrow> [i..<n] = i # [Suc i..<n]"
  by (simp add: upt_rec)

end
