(* ===== verification/Frame_Source.thy ===== *)
theory Frame_Source
  imports Prelude
begin

text \<open>
  The Frame Source's interface: the loop of \<^verbatim>\<open>read_microphone\<close>
  (\<^verbatim>\<open>src/firmware.cpp\<close>, lines 31--33) over the read primitive it calls, and the
  contract the specification sets for that primitive (\<^verbatim>\<open>spec.md\<close>, sections 4.1
  and 6): one raw sample per call, taken from a channel whose state advances once per
  call, and a call that does not return when the channel is not ready. The loop's
  lemmas are stated for every primitive that meets the contract; \<open>Pico_ADC\<close> shows
  that \<^verbatim>\<open>adc_read\<close> meets it and \<open>Sensor\<close> puts the two together.
\<close>

section \<open>The loop over a read primitive\<close>

text \<open>A read primitive: from the channel's state, a sample and the next state, or a fault.\<close>

type_synonym 's sample_read = "'s \<Rightarrow> fault + (u16 \<times> 's)"

text \<open>
  \<^verbatim>\<open>for (int i = 0; i < size; i++) buffer[i] = adc_read();\<close> with the primitive
  \<open>rd\<close> in the place of \<^verbatim>\<open>adc_read\<close>. The loop counter is \<open>i\<close>; the call comes
  before the store, so a fault of the primitive is reported before an out-of-range
  index.
\<close>

function read_microphone_loop ::
  "'s sample_read \<Rightarrow> nat \<Rightarrow> nat \<Rightarrow> i16 list \<Rightarrow> 's \<Rightarrow> fault + (i16 list \<times> 's)" where
  "read_microphone_loop rd i sz buf s =
     (if i < sz then
        (case rd s of
           Inl e \<Rightarrow> Inl e
         | Inr (v, s') \<Rightarrow>
             (case c_store buf i v of
                Inl e \<Rightarrow> Inl e
              | Inr buf' \<Rightarrow> read_microphone_loop rd (Suc i) sz buf' s'))
      else Inr (buf, s))"
  by pat_completeness auto
termination
  by (relation "measure (\<lambda>(rd, i, sz, buf, s). sz - i)") auto

declare read_microphone_loop.simps [simp del]

section \<open>The channel contract\<close>

text \<open>
  A primitive meets the contract with readiness \<open>ready\<close>, sample \<open>smp\<close>, advance
  \<open>nxt\<close> and fault \<open>e\<close> when a call on a ready channel returns the channel's
  current sample and advances it, a call on a channel that is not ready ends in
  \<open>e\<close>, and advancing the channel does not change its readiness.
\<close>

definition channel_contract ::
  "'s sample_read \<Rightarrow> ('s \<Rightarrow> bool) \<Rightarrow> ('s \<Rightarrow> u16) \<Rightarrow> ('s \<Rightarrow> 's) \<Rightarrow> fault \<Rightarrow> bool" where
  "channel_contract rd ready smp nxt e =
     ((\<forall>s. rd s = (if ready s then Inr (smp s, nxt s) else Inl e)) \<and>
      (\<forall>s. ready (nxt s) = ready s))"

text \<open>The next \<open>n\<close> samples of the channel, in order.\<close>

primrec channel_samples :: "('s \<Rightarrow> u16) \<Rightarrow> ('s \<Rightarrow> 's) \<Rightarrow> 's \<Rightarrow> nat \<Rightarrow> u16 list" where
  "channel_samples smp nxt s 0 = []"
| "channel_samples smp nxt s (Suc n) = smp s # channel_samples smp nxt (nxt s) n"

section \<open>Lemmas\<close>

lemma length_channel_samples [simp]:
  "length (channel_samples smp nxt s n) = n"
  by (induction n arbitrary: s) simp_all

text \<open>
  The loop from any counter under the contract: it writes the next samples into the
  slots from \<open>i\<close> to \<open>n - 1\<close> and advances the channel once per slot, or faults
  before writing anything when the channel is not ready or the buffer is short.
\<close>

lemma read_microphone_loop_contract:
  assumes c: "channel_contract rd ready smp nxt e"
  shows "i \<le> n \<Longrightarrow> read_microphone_loop rd i n buf s =
     (if i < n \<and> \<not> ready s then Inl e
      else if i < n \<and> length buf < n then Inl OutOfBounds
      else Inr (take i buf @ channel_samples smp nxt s (n - i) @ drop n buf, (nxt ^^ (n - i)) s))"
proof (induction "n - i" arbitrary: i buf s)
  case 0
  then have "i = n" by simp
  then show ?case
    by (simp add: read_microphone_loop.simps [of rd n n buf s])
next
  case (Suc k)
  have rd: "\<And>s. rd s = (if ready s then Inr (smp s, nxt s) else Inl e)"
    and rdy: "\<And>s. ready (nxt s) = ready s"
    using c by (simp_all add: channel_contract_def)
  have True: "i < n" using Suc.hyps by simp
  show ?case
  proof (cases "ready s")
    case False
    with True show ?thesis
      by (simp add: read_microphone_loop.simps [of rd i n buf s] rd)
  next
    case en: True
    show ?thesis
    proof (cases "i < length buf")
      case False
      with True en show ?thesis
        by (simp add: read_microphone_loop.simps [of rd i n buf s] rd c_array_simps)
    next
      case inb: True
      have r: "rd s = Inr (smp s, nxt s)"
        using en by (simp add: rd)
      have st: "c_store buf i (smp s) = Inr (buf[i := smp s])"
        using inb by (simp add: c_array_simps)
      have step: "read_microphone_loop rd i n buf s = read_microphone_loop rd (Suc i) n (buf[i := smp s]) (nxt s)"
        using True r st by (simp add: read_microphone_loop.simps [of rd i n buf s])
      have IH: "read_microphone_loop rd (Suc i) n (buf[i := smp s]) (nxt s) =
        (if Suc i < n \<and> \<not> ready (nxt s) then Inl e
         else if Suc i < n \<and> length (buf[i := smp s]) < n then Inl OutOfBounds
         else Inr (take (Suc i) (buf[i := smp s]) @ channel_samples smp nxt (nxt s) (n - Suc i)
                     @ drop n (buf[i := smp s]),
                   (nxt ^^ (n - Suc i)) (nxt s)))"
        using Suc.hyps(1) [of "Suc i" "buf[i := smp s]" "nxt s"] Suc.hyps(2) True by simp
      have nsuc: "n - i = Suc (n - Suc i)"
        using True by simp
      have pw: "(nxt ^^ (n - i)) s = (nxt ^^ (n - Suc i)) (nxt s)"
        unfolding nsuc funpow_Suc_right by simp
      show ?thesis
      proof (cases "length buf < n")
        case True
        with \<open>i < n\<close> inb en step IH rdy show ?thesis by auto
      next
        case False
        then have "take i buf @ smp s # channel_samples smp nxt (nxt s) (n - Suc i) @ drop n buf =
                   take (Suc i) (buf[i := smp s]) @ channel_samples smp nxt (nxt s) (n - Suc i) @ drop n buf"
          using \<open>i < n\<close> by (intro take_update_prefix) simp_all
        with False \<open>i < n\<close> en step IH nsuc pw rdy show ?thesis
          by simp
      qed
    qed
  qed
qed

section \<open>Properties\<close>

text \<open>
  C30. The Frame Source's contract (\<^verbatim>\<open>fill(buffer, count)\<close>, specification 4.1)
  holds for every read primitive that meets the channel contract: the loop fills
  the first \<open>n\<close> slots with the channel's next \<open>n\<close> samples in order, leaves the
  rest of the buffer, and advances the channel exactly \<open>n\<close> times; otherwise it ends
  in the primitive's fault or an out-of-bounds write before delivering anything. It
  never delivers a short frame.
\<close>

theorem fill_meets_contract:
  assumes "channel_contract rd ready smp nxt e"
  shows "read_microphone_loop rd 0 n buf s =
     (if 0 < n \<and> \<not> ready s then Inl e
      else if 0 < n \<and> length buf < n then Inl OutOfBounds
      else Inr (channel_samples smp nxt s n @ drop n buf, (nxt ^^ n) s))"
  using read_microphone_loop_contract [OF assms, of 0 n] by simp

end
