(* ===== verification/Pico_ADC.thy ===== *)
theory Pico_ADC
  imports Frame_Source
begin

unbundle bit_operations_syntax

text \<open>
  The RP2040 ADC as the firmware drives it through the Pico SDK
  (\<^verbatim>\<open>hardware/adc.h\<close>: \<^verbatim>\<open>adc_init\<close>, \<^verbatim>\<open>adc_gpio_init\<close>,
  \<^verbatim>\<open>adc_select_input\<close>, \<^verbatim>\<open>adc_read\<close>). The SDK is not part of the
  repository, so these calls are modelled from its documented contract. The
  converter's analog input is unknown to the program: it is a stream of raw
  conversions, any function at all, and the lemmas give the view of a run of reads
  as the next \<open>n\<close> conversions of that stream, each a 12-bit code.
\<close>

section \<open>The ADC\<close>

text \<open>
  The converter's state: whether it is enabled, which GPIO pins were configured as
  analog inputs, the selected input (the \<^verbatim>\<open>AINSEL\<close> field), and how many
  conversions were made so far. What the hardware would convert is not known to the
  program: \<open>adc_conv ch k\<close> is the raw value of the \<open>k\<close>-th conversion on input
  \<open>ch\<close>, any function at all.
\<close>

record adc_state =
  adc_enabled :: bool
  adc_gpio :: "nat list"
  adc_input :: nat
  adc_conv :: "nat \<Rightarrow> nat \<Rightarrow> u16"
  adc_count :: nat

text \<open>The converter after reset: disabled, \<^verbatim>\<open>AINSEL\<close> 0, no conversion yet.\<close>

definition adc_reset :: "(nat \<Rightarrow> nat \<Rightarrow> u16) \<Rightarrow> adc_state" where
  "adc_reset conv =
     \<lparr>adc_enabled = False, adc_gpio = [], adc_input = 0, adc_conv = conv, adc_count = 0\<rparr>"

text \<open>\<^verbatim>\<open>adc_init\<close>: reset the block, set \<^verbatim>\<open>CS.EN\<close>, wait until ready.\<close>

definition adc_init :: "adc_state \<Rightarrow> adc_state" where
  "adc_init s = s\<lparr>adc_enabled := True, adc_input := 0\<rparr>"

text \<open>\<^verbatim>\<open>adc_gpio_init(gpio)\<close>: make the pin a high-impedance analog input.\<close>

definition adc_gpio_init :: "nat \<Rightarrow> adc_state \<Rightarrow> adc_state" where
  "adc_gpio_init pin s = s\<lparr>adc_gpio := adc_gpio s @ [pin]\<rparr>"

text \<open>
  \<^verbatim>\<open>adc_select_input(input)\<close>: a masked write of the three-bit \<^verbatim>\<open>AINSEL\<close> field
  (the parameter check is an assertion compiled out by default).
\<close>

definition adc_select_input :: "nat \<Rightarrow> adc_state \<Rightarrow> adc_state" where
  "adc_select_input inp s = s\<lparr>adc_input := inp mod 8\<rparr>"

text \<open>
  \<^verbatim>\<open>adc_read()\<close>: start one conversion, spin until \<^verbatim>\<open>CS.READY\<close>, return the
  12-bit \<^verbatim>\<open>RESULT\<close> field. On a disabled converter \<^verbatim>\<open>READY\<close> never comes and
  the call never returns.
\<close>

definition adc_sample :: "adc_state \<Rightarrow> nat \<Rightarrow> u16" where
  "adc_sample s k = adc_conv s (adc_input s) k AND mask 12"

definition adc_read :: "adc_state \<Rightarrow> fault + (u16 \<times> adc_state)" where
  "adc_read s =
     (if adc_enabled s
      then Inr (adc_sample s (adc_count s), s\<lparr>adc_count := adc_count s + 1\<rparr>)
      else Inl AdcHang)"

section \<open>The frame a read delivers\<close>

text \<open>
  The abstract view of a frame read: the next \<open>n\<close> conversions of the selected
  input, and the converter advanced by \<open>n\<close>.
\<close>

primrec adc_samples :: "adc_state \<Rightarrow> nat \<Rightarrow> u16 list" where
  "adc_samples s 0 = []"
| "adc_samples s (Suc n) =
     adc_sample s (adc_count s) # adc_samples (s\<lparr>adc_count := adc_count s + 1\<rparr>) n"

definition adc_skip :: "adc_state \<Rightarrow> nat \<Rightarrow> adc_state" where
  "adc_skip s n = s\<lparr>adc_count := adc_count s + n\<rparr>"

lemma length_adc_samples [simp]: "length (adc_samples s n) = n"
  by (induction n arbitrary: s) auto

lemma nth_adc_samples:
  "k < n \<Longrightarrow> adc_samples s n ! k = adc_sample s (adc_count s + k)"
proof (induction n arbitrary: s k)
  case 0
  then show ?case by simp
next
  case (Suc n)
  then show ?case
    by (cases k) (simp_all add: adc_sample_def)
qed

lemma adc_skip_0 [simp]: "adc_skip s 0 = s"
  by (simp add: adc_skip_def)

lemma adc_sample_12bit:
  "unat (adc_sample s k) < 4096"
  by (simp add: adc_sample_def unat_and_mask_12)

lemma adc_samples_12bit_set:
  "x \<in> set (adc_samples s n) \<Longrightarrow> unat x < 4096"
proof (induction n arbitrary: s)
  case 0
  then show ?case by simp
next
  case (Suc n)
  then show ?case
    using adc_sample_12bit by auto
qed

section \<open>The SDK meets the Frame Source's channel contract\<close>

text \<open>
  \<^verbatim>\<open>adc_read\<close> is a read primitive of the interface: ready is enabled, the sample
  is the current conversion's 12-bit result, the advance is one conversion, and a
  read of a disabled converter hangs.
\<close>

lemma adc_read_channel_contract:
  "channel_contract adc_read adc_enabled (\<lambda>s. adc_sample s (adc_count s))
     (\<lambda>s. s\<lparr>adc_count := adc_count s + 1\<rparr>) AdcHang"
  by (simp add: channel_contract_def adc_read_def)

lemma adc_channel_samples:
  "channel_samples (\<lambda>s. adc_sample s (adc_count s)) (\<lambda>s. s\<lparr>adc_count := adc_count s + 1\<rparr>) s n =
   adc_samples s n"
  by (induction n arbitrary: s) simp_all

lemma adc_channel_advance:
  "((\<lambda>s. s\<lparr>adc_count := adc_count s + 1\<rparr>) ^^ n) s = adc_skip s n"
  by (induction n) (simp_all add: adc_skip_def)

end
