(* ===== verification/Sensor.thy ===== *)
theory Sensor
  imports Pico_ADC
begin

unbundle bit_operations_syntax

text \<open>
  The Frame Source: \<^verbatim>\<open>read_microphone\<close> (\<^verbatim>\<open>src/firmware.cpp\<close>, lines
  29--34), which fills the audio buffer with one ADC conversion per slot, the loop of
  \<open>Frame_Source\<close> run over the SDK model of \<open>Pico_ADC\<close>. The lemmas give the closed form of
  \<^verbatim>\<open>read_microphone\<close> (which samples it writes, that it advances the converter
  once per slot, and when it faults) and the 12-bit bound of every sample.
\<close>

section \<open>Audio settings\<close>

text \<open>\<^verbatim>\<open>kAudioSampleRate\<close> and \<^verbatim>\<open>kAudioFrameSize\<close> (lines 19--20).\<close>

definition kAudioSampleRate :: nat where
  "kAudioSampleRate = 16000"

definition kAudioFrameSize :: nat where
  "kAudioFrameSize = 160"

section \<open>read\_microphone\<close>

text \<open>\<^verbatim>\<open>read_microphone\<close>: the loop of \<open>Frame_Source\<close> over \<^verbatim>\<open>adc_read\<close>.\<close>

definition read_microphone :: "i16 list \<Rightarrow> nat \<Rightarrow> adc_state \<Rightarrow> fault + (i16 list \<times> adc_state)" where
  "read_microphone buf sz s = read_microphone_loop adc_read 0 sz buf s"

section \<open>Lemmas\<close>

text \<open>The loop over \<^verbatim>\<open>adc_read\<close>, from the interface's lemma and the SDK's contract.\<close>

lemma read_microphone_loop_closed:
  "i \<le> n \<Longrightarrow> read_microphone_loop adc_read i n buf s =
     (if i < n \<and> \<not> adc_enabled s then Inl AdcHang
      else if i < n \<and> length buf < n then Inl OutOfBounds
      else Inr (take i buf @ adc_samples s (n - i) @ drop n buf, adc_skip s (n - i)))"
  by (simp only: read_microphone_loop_contract [OF adc_read_channel_contract]
      adc_channel_samples adc_channel_advance)

section \<open>Properties\<close>

text \<open>
  C17. \<^verbatim>\<open>read_microphone\<close> fills the first \<open>size\<close> slots of the buffer with the
  next \<open>size\<close> conversions of the selected input, in order, leaves the rest of the
  buffer alone and advances the converter by exactly \<open>size\<close> conversions; it hangs
  on a disabled converter and writes out of bounds when the buffer is shorter than
  \<open>size\<close>. It never delivers a short frame.
\<close>

theorem read_microphone_refines:
  "read_microphone buf n s =
     (if 0 < n \<and> \<not> adc_enabled s then Inl AdcHang
      else if 0 < n \<and> length buf < n then Inl OutOfBounds
      else Inr (adc_samples s n @ drop n buf, adc_skip s n))"
  by (simp add: read_microphone_def read_microphone_loop_closed)

text \<open>
  C18. Every sample \<^verbatim>\<open>read_microphone\<close> delivers is a 12-bit ADC code: as an
  unsigned value it is below 4096.
\<close>

theorem read_microphone_samples_12bit:
  assumes "read_microphone buf n s = Inr (buf', s')" "k < n"
  shows "unat (buf' ! k) < 4096"
proof -
  have "n \<le> length buf" "buf' = adc_samples s n @ drop n buf"
    using assms(1) by (auto simp: read_microphone_def read_microphone_loop_closed split: if_splits)
  with assms(2) have "buf' ! k = adc_sample s (adc_count s + k)"
    by (simp add: nth_append nth_adc_samples)
  then show ?thesis
    by (simp add: adc_sample_12bit)
qed

theorem read_microphone_samples_12bit_witness:
  "read_microphone [0, 0, 0] 3 (adc_init (adc_reset (\<lambda>ch k. of_nat (k * 4000)))) =
     Inr (adc_samples (adc_init (adc_reset (\<lambda>ch k. of_nat (k * 4000)))) 3,
          adc_skip (adc_init (adc_reset (\<lambda>ch k. of_nat (k * 4000)))) 3) \<and>
   (2 :: nat) < 3 \<and>
   unat (adc_samples (adc_init (adc_reset (\<lambda>ch k. of_nat (k * 4000)))) 3 ! 2) < 4096"
proof -
  have h: "read_microphone [0, 0, 0] 3 (adc_init (adc_reset (\<lambda>ch k. of_nat (k * 4000)))) =
     Inr (adc_samples (adc_init (adc_reset (\<lambda>ch k. of_nat (k * 4000)))) 3,
          adc_skip (adc_init (adc_reset (\<lambda>ch k. of_nat (k * 4000)))) 3)"
    by (simp add: read_microphone_def read_microphone_loop_closed adc_init_def adc_reset_def)
  have k: "(2 :: nat) < 3" by simp
  show ?thesis
    using h k read_microphone_samples_12bit [OF h k] by simp
qed

theorem fill_meets_contract_witness:
  "channel_contract adc_read adc_enabled (\<lambda>s. adc_sample s (adc_count s))
     (\<lambda>s. s\<lparr>adc_count := adc_count s + 1\<rparr>) AdcHang \<and>
   read_microphone_loop adc_read 0 3 [0, 0, 0] (adc_init (adc_reset (\<lambda>ch k. of_nat (k * 4000)))) =
     Inr (channel_samples (\<lambda>s. adc_sample s (adc_count s)) (\<lambda>s. s\<lparr>adc_count := adc_count s + 1\<rparr>)
            (adc_init (adc_reset (\<lambda>ch k. of_nat (k * 4000)))) 3,
          ((\<lambda>s. s\<lparr>adc_count := adc_count s + 1\<rparr>) ^^ 3) (adc_init (adc_reset (\<lambda>ch k. of_nat (k * 4000)))))"
proof -
  have "adc_enabled (adc_init (adc_reset (\<lambda>ch k. of_nat (k * 4000))))"
    by (simp add: adc_init_def)
  then show ?thesis
    using adc_read_channel_contract
      fill_meets_contract [OF adc_read_channel_contract, of 3 "[0, 0, 0]"
        "adc_init (adc_reset (\<lambda>ch k. of_nat (k * 4000)))"]
    by simp
qed

end
