(* ===== verification/Preprocess.thy ===== *)
theory Preprocess
  imports Sensor
begin

text \<open>
  The Preprocessor: \<^verbatim>\<open>preprocess_audio\<close> (\<^verbatim>\<open>src/firmware.cpp\<close>, lines 37--41)
  and the copy of its loop that \<^verbatim>\<open>main\<close> inlines (lines 82--84), which writes the
  normalised frame straight into the model's input tensor. An \<^verbatim>\<open>int16_t\<close> sample
  divided by \<^verbatim>\<open>2048.0f\<close> is computed exactly in binary32 (the sample has at most
  16 significant bits and the divisor is a power of two), so the normalised value is
  the real quotient. The lemmas give the closed form of both loops, their
  equivalence, and the bounds of the normalisation.
\<close>

section \<open>Normalisation of one sample\<close>

text \<open>\<^verbatim>\<open>raw[i] / 2048.0f\<close>: the sample is read as signed and divided.\<close>

definition norm_sample :: "i16 \<Rightarrow> real" where
  "norm_sample x = real_of_int (sint x) / 2048"

section \<open>preprocess\_audio\<close>

text \<open>\<^verbatim>\<open>for (int i = 0; i < size; i++) processed[i] = raw[i] / 2048.0f;\<close>\<close>

function preprocess_loop :: "nat \<Rightarrow> nat \<Rightarrow> i16 list \<Rightarrow> real list \<Rightarrow> fault + real list" where
  "preprocess_loop i sz raw out =
     (if i < sz then
        (case c_load raw i of
           Inl e \<Rightarrow> Inl e
         | Inr x \<Rightarrow>
             (case c_store out i (norm_sample x) of
                Inl e \<Rightarrow> Inl e
              | Inr out' \<Rightarrow> preprocess_loop (Suc i) sz raw out'))
      else Inr out)"
  by pat_completeness auto
termination
  by (relation "measure (\<lambda>(i, sz, raw, out). sz - i)") auto

declare preprocess_loop.simps [simp del]

definition preprocess_audio :: "i16 list \<Rightarrow> real list \<Rightarrow> nat \<Rightarrow> fault + real list" where
  "preprocess_audio raw processed sz = preprocess_loop 0 sz raw processed"

section \<open>The loop inlined in main\<close>

text \<open>
  \<^verbatim>\<open>for (int i = 0; i < kAudioFrameSize; i++) input->data.f[i] = audio_buffer[i] / 2048.0f;\<close>
  written as a left fold of one loop body over the indices, a fault ending the loop.
\<close>

definition main_preprocess_body :: "i16 list \<Rightarrow> nat \<Rightarrow> fault + real list \<Rightarrow> fault + real list" where
  "main_preprocess_body audio i acc =
     (case acc of
        Inl e \<Rightarrow> Inl e
      | Inr inp \<Rightarrow>
          (case c_load audio i of
             Inl e \<Rightarrow> Inl e
           | Inr x \<Rightarrow> c_store inp i (norm_sample x)))"

definition main_preprocess :: "i16 list \<Rightarrow> real list \<Rightarrow> fault + real list" where
  "main_preprocess audio inp = fold (main_preprocess_body audio) [0..<kAudioFrameSize] (Inr inp)"

section \<open>Closed forms\<close>

lemma preprocess_loop_closed:
  "i \<le> n \<Longrightarrow> preprocess_loop i n raw out =
     (if i < n \<and> (length raw < n \<or> length out < n) then Inl OutOfBounds
      else Inr (take i out @ map norm_sample (take (n - i) (drop i raw)) @ drop n out))"
proof (induction i n raw out rule: preprocess_loop.induct)
  case (1 i n raw out)
  show ?case
  proof (cases "i < n")
    case False
    with "1.prems" have "i = n" by simp
    then show ?thesis
      by (simp add: preprocess_loop.simps [of n n raw out])
  next
    case True
    show ?thesis
    proof (cases "i < length raw \<and> i < length out")
      case False
      with True show ?thesis
        by (auto simp: preprocess_loop.simps [of i n raw out] c_load_def c_array_simps
            split: sum.splits)
    next
      case inb: True
      let ?v = "norm_sample (raw ! i)"
      have ld: "c_load raw i = Inr (raw ! i)" and st: "c_store out i ?v = Inr (out[i := ?v])"
        using inb by (simp_all add: c_array_simps)
      have step: "preprocess_loop i n raw out = preprocess_loop (Suc i) n raw (out[i := ?v])"
        using True ld st by (simp add: preprocess_loop.simps [of i n raw out])
      have IH: "preprocess_loop (Suc i) n raw (out[i := ?v]) =
        (if Suc i < n \<and> (length raw < n \<or> length (out[i := ?v]) < n) then Inl OutOfBounds
         else Inr (take (Suc i) (out[i := ?v]) @ map norm_sample (take (n - Suc i) (drop (Suc i) raw))
                   @ drop n (out[i := ?v])))"
        using "1.IH" [OF True ld st] True by simp
      show ?thesis
      proof (cases "length raw < n \<or> length out < n")
        case True
        with \<open>i < n\<close> inb step IH show ?thesis by auto
      next
        case False
        have drop_raw: "take (n - i) (drop i raw) = raw ! i # take (n - Suc i) (drop (Suc i) raw)"
          using inb \<open>i < n\<close> by (simp add: Cons_nth_drop_Suc take_Suc_Cons [symmetric] Suc_diff_Suc)
        have "take i out @ ?v # map norm_sample (take (n - Suc i) (drop (Suc i) raw)) @ drop n out =
              take (Suc i) (out[i := ?v]) @ map norm_sample (take (n - Suc i) (drop (Suc i) raw)) @ drop n out"
          using False \<open>i < n\<close> by (intro take_update_prefix) simp_all
        with False \<open>i < n\<close> step IH drop_raw show ?thesis
          by simp
      qed
    qed
  qed
qed

lemma main_preprocess_body_Inl [simp]:
  "fold (main_preprocess_body audio) is (Inl e) = Inl e"
  by (induction "is") (simp_all add: main_preprocess_body_def)

lemma fold_main_preprocess_body:
  "i \<le> n \<Longrightarrow> fold (main_preprocess_body audio) [i..<n] (Inr inp) = preprocess_loop i n audio inp"
proof (induction "n - i" arbitrary: i inp)
  case 0
  then have "i = n" by simp
  then show ?case
    by (simp add: preprocess_loop.simps [of n n audio inp])
next
  case (Suc k)
  then have lt: "i < n" by simp
  show ?case
  proof (cases "i < length audio \<and> i < length inp")
    case True
    let ?v = "norm_sample (audio ! i)"
    have "fold (main_preprocess_body audio) [Suc i..<n] (Inr (inp[i := ?v])) =
          preprocess_loop (Suc i) n audio (inp[i := ?v])"
      using Suc.hyps(1) [of "Suc i"] Suc.hyps(2) lt by simp
    with True lt show ?thesis
      by (simp add: upt_Suc_Cons main_preprocess_body_def c_array_simps
          preprocess_loop.simps [of i n audio inp])
  next
    case False
    with lt show ?thesis
      by (auto simp: upt_Suc_Cons main_preprocess_body_def c_load_def c_array_simps
          preprocess_loop.simps [of i n audio inp] split: sum.splits)
  qed
qed

lemma norm_sample_12bit:
  assumes "unat x < 4096"
  shows "0 \<le> norm_sample x \<and> norm_sample x \<le> 4095 / 2048"
proof -
  have "sint x = int (unat x)"
    using assms by (intro sint_small_word) simp
  with assms have "0 \<le> sint x \<and> sint x \<le> 4095"
    by linarith
  then show ?thesis
    unfolding norm_sample_def by (simp del: of_int_sint)
qed

section \<open>Properties\<close>

text \<open>
  C19. The normalisation loop that \<^verbatim>\<open>main\<close> inlines computes exactly what
  \<^verbatim>\<open>preprocess_audio\<close> computes for a frame of \<^verbatim>\<open>kAudioFrameSize\<close> samples,
  faults included: the inlined copy is equivalent to the unused helper.
\<close>

theorem main_loop_equiv_preprocess_audio:
  "main_preprocess audio inp = preprocess_audio audio inp kAudioFrameSize"
  by (simp add: main_preprocess_def preprocess_audio_def fold_main_preprocess_body)

text \<open>
  C20. \<^verbatim>\<open>preprocess_audio(raw, processed, size)\<close> writes the normalised first
  \<open>size\<close> samples into the first \<open>size\<close> slots, in order, and leaves the rest;
  it accesses out of bounds when either array is shorter than \<open>size\<close>. The output
  has the length of \<open>processed\<close>: the function is length-preserving.
\<close>

theorem preprocess_audio_refines:
  "preprocess_audio raw out n =
     (if 0 < n \<and> (length raw < n \<or> length out < n) then Inl OutOfBounds
      else Inr (map norm_sample (take n raw) @ drop n out))"
  by (simp add: preprocess_audio_def preprocess_loop_closed)

text \<open>
  C22. Every \<^verbatim>\<open>int16_t\<close> normalises into \<open>[-16, 16)\<close>; the result is in
  \<open>[-1, 1]\<close> exactly when the sample is within \<open>[-2048, 2048]\<close>, since nothing
  clamps.
\<close>

theorem norm_sample_bounds:
  "- 16 \<le> norm_sample x \<and> norm_sample x < 16 \<and>
   (\<bar>norm_sample x\<bar> \<le> 1 \<longleftrightarrow> \<bar>sint x\<bar> \<le> 2048)"
  using sint_i16_range [of x] by (auto simp: norm_sample_def abs_le_iff simp del: of_int_sint)

theorem norm_sample_bounds_witness:
  "- 16 \<le> norm_sample 3000 \<and> norm_sample 3000 < 16 \<and>
   (\<bar>norm_sample 3000\<bar> \<le> 1 \<longleftrightarrow> \<bar>sint (3000 :: 16 word)\<bar> \<le> 2048)"
  by (rule norm_sample_bounds)

end
