(* ===== verification/Decision.thy ===== *)
theory Decision
  imports Prelude
begin

text \<open>
  The Decision Policy: the comparison \<^verbatim>\<open>prob > 0.5f\<close> of the model's output with
  the threshold and the callback \<^verbatim>\<open>on_footstep_detected\<close>
  (\<^verbatim>\<open>src/firmware.cpp\<close>, lines 24--26 and 95--97). The model's output is an
  arbitrary binary32 value, so it is a finite value, an infinity or NaN, and the
  comparison is IEEE 754's ordered greater-than, false whenever NaN is involved.
  The lemmas show the decision rule is the strict threshold on the real value, that
  NaN and \<open>-\<infinity>\<close> never fire and \<open>+\<infinity>\<close> always does, and that one
  decision emits at most one event.
\<close>

section \<open>Binary32 values as the comparison sees them\<close>

text \<open>
  A finite binary32 value is a real (signed zeros compare equal and are one value
  here); the comparison does not depend on the encoding.
\<close>

datatype f32 = F32 real | F32_PosInf | F32_NegInf | F32_NaN

fun f32_gt :: "f32 \<Rightarrow> f32 \<Rightarrow> bool" where
  "f32_gt F32_NaN _ = False"
| "f32_gt _ F32_NaN = False"
| "f32_gt (F32 a) (F32 b) = (b < a)"
| "f32_gt F32_PosInf y = (y \<noteq> F32_PosInf)"
| "f32_gt F32_NegInf _ = False"
| "f32_gt (F32 _) F32_PosInf = False"
| "f32_gt (F32 _) F32_NegInf = True"

section \<open>The event sink and the decision\<close>

definition footstep_msg :: string where
  "footstep_msg = ''Footstep detected!'' @ nl"

text \<open>\<^verbatim>\<open>on_footstep_detected()\<close>: \<^verbatim>\<open>printf("Footstep detected!\n")\<close>.\<close>

definition on_footstep_detected :: "io_event list" where
  "on_footstep_detected = [Print footstep_msg]"

text \<open>\<^verbatim>\<open>if (prob > 0.5f) on_footstep_detected();\<close>\<close>

definition decide :: "f32 \<Rightarrow> io_event list" where
  "decide prob = (if f32_gt prob (F32 (1 / 2)) then on_footstep_detected else [])"

section \<open>The rule on the value\<close>

text \<open>What a value means to the threshold, stated on the extended reals.\<close>

fun f32_above_half :: "f32 \<Rightarrow> bool" where
  "f32_above_half (F32 r) = (1 / 2 < r)"
| "f32_above_half F32_PosInf = True"
| "f32_above_half F32_NegInf = False"
| "f32_above_half F32_NaN = False"

lemma f32_gt_half:
  "f32_gt p (F32 (1 / 2)) = f32_above_half p"
  by (cases p) simp_all

lemma decide_cases:
  "decide p = (if f32_above_half p then [Print footstep_msg] else [])"
  by (simp add: decide_def on_footstep_detected_def f32_gt_half)

lemma count_decide:
  "count_list (decide p) (Print footstep_msg) = (if f32_above_half p then 1 else 0)"
  by (simp add: decide_cases)

section \<open>Properties\<close>

text \<open>
  C21. The decision fires exactly on the values strictly above one half and on
  \<open>+\<infinity>\<close>; NaN, \<open>-\<infinity>\<close> and every finite value up to one half emit
  nothing, and a firing decision calls the sink exactly once.
\<close>

theorem decide_strict_threshold:
  "(decide p \<noteq> [] \<longleftrightarrow> (\<exists>r. p = F32 r \<and> 1 / 2 < r) \<or> p = F32_PosInf) \<and>
   (decide p = [] \<or> decide p = on_footstep_detected)"
  by (cases p) (simp_all add: decide_def on_footstep_detected_def)

theorem decide_strict_threshold_witness:
  "(decide F32_NaN \<noteq> [] \<longleftrightarrow> (\<exists>r. F32_NaN = F32 r \<and> 1 / 2 < r) \<or> F32_NaN = F32_PosInf) \<and>
   (decide F32_NaN = [] \<or> decide F32_NaN = on_footstep_detected)"
  by (rule decide_strict_threshold)

end
