(* ===== verification/Inference.thy ===== *)
theory Inference
  imports Decision
begin

text \<open>
  The Inference Engine Adapter: the TensorFlow Lite Micro calls the firmware makes
  (\<^verbatim>\<open>GetModel\<close> and \<^verbatim>\<open>version()\<close>, the \<^verbatim>\<open>MicroInterpreter\<close>
  constructor, \<^verbatim>\<open>AllocateTensors\<close>, \<^verbatim>\<open>input(0)\<close>/\<^verbatim>\<open>output(0)\<close>,
  \<^verbatim>\<open>Invoke\<close>) and the arena (\<^verbatim>\<open>src/firmware.cpp\<close>, lines 10--16). The
  library is not part of the repository and the model is an opaque artifact, so the
  model is a record of what the firmware can observe of it, and the calls are
  modelled from their contract: allocation succeeds exactly when every operator
  has a kernel, both tensors have a type of fixed element size and the working set
  fits the arena; an inference pass may change the
  arena's working memory and the output tensor's contents, never a tensor's size.
  The interpreter's working memory is of any type \<open>'e\<close>.
\<close>

section \<open>Library constants\<close>

datatype tflite_status =
  kTfLiteOk | kTfLiteError | kTfLiteDelegateError | kTfLiteApplicationError
| kTfLiteDelegateDataNotFound | kTfLiteDelegateDataWriteError
| kTfLiteDelegateDataReadError | kTfLiteUnresolvedOps | kTfLiteCancelled

definition TFLITE_SCHEMA_VERSION :: nat where
  "TFLITE_SCHEMA_VERSION = 3"

text \<open>
  \<^verbatim>\<open>TfLiteType\<close>, the element types a tensor of a model can have (the
  constructors up to \<^verbatim>\<open>kTfLiteFloat64\<close>, in the library's order).
\<close>

datatype tflite_type =
  kTfLiteNoType | kTfLiteFloat32 | kTfLiteInt32 | kTfLiteUInt8 | kTfLiteInt64 | kTfLiteString
| kTfLiteBool | kTfLiteInt16 | kTfLiteComplex64 | kTfLiteInt8 | kTfLiteFloat16 | kTfLiteFloat64

text \<open>
  \<^verbatim>\<open>TfLiteTypeSizeOf\<close>: the bytes of one element. A type without a fixed
  element size is refused, and tensor allocation fails on it.
\<close>

fun TfLiteTypeSizeOf :: "tflite_type \<Rightarrow> nat option" where
  "TfLiteTypeSizeOf kTfLiteFloat32 = Some 4"
| "TfLiteTypeSizeOf kTfLiteInt32 = Some 4"
| "TfLiteTypeSizeOf kTfLiteUInt8 = Some 1"
| "TfLiteTypeSizeOf kTfLiteInt64 = Some 8"
| "TfLiteTypeSizeOf kTfLiteBool = Some 1"
| "TfLiteTypeSizeOf kTfLiteInt16 = Some 2"
| "TfLiteTypeSizeOf kTfLiteComplex64 = Some 8"
| "TfLiteTypeSizeOf kTfLiteInt8 = Some 1"
| "TfLiteTypeSizeOf kTfLiteFloat16 = Some 2"
| "TfLiteTypeSizeOf kTfLiteFloat64 = Some 8"
| "TfLiteTypeSizeOf kTfLiteNoType = None"
| "TfLiteTypeSizeOf kTfLiteString = None"

text \<open>
  A tensor's \<^verbatim>\<open>bytes\<close>, and the part of it that \<^verbatim>\<open>data.f\<close> (the tensor's
  memory read as \<^verbatim>\<open>float\<close>, whatever its type) addresses: the whole floats inside
  the tensor. The firmware reaches both tensors only through \<^verbatim>\<open>data.f\<close>.
\<close>

definition tensor_bytes :: "tflite_type \<Rightarrow> nat \<Rightarrow> nat" where
  "tensor_bytes t n = (case TfLiteTypeSizeOf t of Some k \<Rightarrow> n * k | None \<Rightarrow> 0)"

definition data_f_len :: "tflite_type \<Rightarrow> nat \<Rightarrow> nat" where
  "data_f_len t n = tensor_bytes t n div 4"

text \<open>\<^verbatim>\<open>constexpr int kTensorArenaSize = 128 * 1024;\<close>\<close>

definition kTensorArenaSize :: nat where
  "kTensorArenaSize = 128 * 1024"

section \<open>The model and the interpreter\<close>

text \<open>
  The embedded model as the firmware sees it: its schema version, the arena bytes
  its tensors and kernels need, whether \<^verbatim>\<open>AllOpsResolver\<close> resolves all its
  operators, the element counts of input tensor 0 and output tensor 0, the initial
  working memory, and one inference pass (status, new working memory, the values it
  writes to the output tensor by index).
\<close>

record 'e tflm_model =
  model_version :: nat
  model_arena_needed :: nat
  model_ops_resolved :: bool
  model_input_type :: tflite_type
  model_input_len :: nat
  model_output_type :: tflite_type
  model_output_len :: nat
  model_arena_init :: 'e
  model_eval :: "'e \<Rightarrow> real list \<Rightarrow> tflite_status \<times> 'e \<times> (nat \<Rightarrow> f32)"

text \<open>The float views of \<^verbatim>\<open>interpreter->input(0)\<close> and \<^verbatim>\<open>interpreter->output(0)\<close>.\<close>

definition input_f_len :: "'e tflm_model \<Rightarrow> nat" where
  "input_f_len m = data_f_len (model_input_type m) (model_input_len m)"

definition output_f_len :: "'e tflm_model \<Rightarrow> nat" where
  "output_f_len m = data_f_len (model_output_type m) (model_output_len m)"

text \<open>
  The interpreter: its working memory, and the contents of the input and output
  tensors as \<^verbatim>\<open>data.f\<close> sees them.
\<close>

record 'e interpreter =
  it_arena :: 'e
  it_input :: "real list"
  it_output :: "f32 list"

text \<open>\<^verbatim>\<open>MicroInterpreter(model, resolver, tensor_arena, kTensorArenaSize)\<close>: no tensors yet.\<close>

definition micro_interpreter :: "'e tflm_model \<Rightarrow> 'e interpreter" where
  "micro_interpreter m = \<lparr>it_arena = model_arena_init m, it_input = [], it_output = []\<rparr>"

text \<open>
  \<^verbatim>\<open>AllocateTensors()\<close>: plan the tensors inside the arena. The tensors'
  initial contents are not specified by the library; they are zero here.
\<close>

definition allocate_ok :: "'e tflm_model \<Rightarrow> bool" where
  "allocate_ok m =
     (model_ops_resolved m \<and> TfLiteTypeSizeOf (model_input_type m) \<noteq> None \<and>
      TfLiteTypeSizeOf (model_output_type m) \<noteq> None \<and> model_arena_needed m \<le> kTensorArenaSize)"

definition AllocateTensors :: "'e tflm_model \<Rightarrow> 'e interpreter \<Rightarrow> tflite_status \<times> 'e interpreter" where
  "AllocateTensors m it =
     (if allocate_ok m
      then (kTfLiteOk, it\<lparr>it_input := replicate (input_f_len m) 0,
                           it_output := replicate (output_f_len m) (F32 0)\<rparr>)
      else (kTfLiteError, it))"

text \<open>\<^verbatim>\<open>Invoke()\<close>: one pass over the input tensor; the output tensor keeps its size.\<close>

definition Invoke :: "'e tflm_model \<Rightarrow> 'e interpreter \<Rightarrow> tflite_status \<times> 'e interpreter" where
  "Invoke m it =
     (case model_eval m (it_arena it) (it_input it) of
        (st, e', out) \<Rightarrow> (st, it\<lparr>it_arena := e', it_output := map out [0..<length (it_output it)]\<rparr>))"

section \<open>Lemmas\<close>

text \<open>The float view of a tensor of each type the firmware meets.\<close>

lemma data_f_len_float32 [simp]: "data_f_len kTfLiteFloat32 n = n"
  by (simp add: data_f_len_def tensor_bytes_def)

lemma data_f_len_int8 [simp]: "data_f_len kTfLiteInt8 n = n div 4"
  by (simp add: data_f_len_def tensor_bytes_def)

end
