(* ===== verification/Firmware.thy ===== *)
theory Firmware
  imports Preprocess Inference
begin

text \<open>
  The Control Loop: \<^verbatim>\<open>main\<close> (\<^verbatim>\<open>src/firmware.cpp\<close>, lines 43--101) as a
  state machine over the program's globals. \<open>fw_boot\<close> is the start-up sequence
  (lines 44--75: console, ADC set-up, model validation, interpreter construction and
  tensor allocation, with the two \<^verbatim>\<open>while (1);\<close> halts), \<open>fw_cycle\<close> one
  iteration of the \<^verbatim>\<open>while (1)\<close> loop (lines 77--100), \<open>fw_step\<close> one step of
  the machine, \<open>fw_run\<close> a number of steps and \<open>fw_reachable\<close> the states a run
  reaches. The lemmas are the invariant of the reachable states and the behaviour of
  each phase.
\<close>

section \<open>States\<close>

text \<open>
  \<open>Boot\<close> is the program before and during start-up (the spec's Uninitialized and
  Validating), \<open>Running\<close> the loop (Ready and Running), \<open>Halted\<close> one of the two
  \<^verbatim>\<open>while (1);\<close> spins, \<open>Faulted\<close> undefined behaviour or a hang inside a
  cycle, after which nothing is claimed.
\<close>

datatype halt_reason = SchemaMismatch | AllocationFailed

datatype phase = Boot | Running | Halted halt_reason | Faulted fault

text \<open>
  The globals: the ADC, \<^verbatim>\<open>audio_buffer\<close>, the interpreter with the tensors behind
  \<^verbatim>\<open>input\<close> and \<^verbatim>\<open>output\<close>, and what was printed or slept so far.
\<close>

record 'e fw_state =
  fw_phase :: phase
  fw_adc :: adc_state
  fw_audio :: "i16 list"
  fw_interp :: "'e interpreter"
  fw_trace :: "io_event list"

text \<open>Power-on: zero-initialised globals, the ADC out of reset.\<close>

definition fw_init :: "'e tflm_model \<Rightarrow> (nat \<Rightarrow> nat \<Rightarrow> u16) \<Rightarrow> 'e fw_state" where
  "fw_init m conv =
     \<lparr>fw_phase = Boot, fw_adc = adc_reset conv, fw_audio = replicate kAudioFrameSize 0,
      fw_interp = micro_interpreter m, fw_trace = []\<rparr>"

section \<open>Start-up\<close>

definition boot_msg :: string where
  "boot_msg = ''Starting footstep detector...'' @ nl"

definition mismatch_msg :: string where
  "mismatch_msg = ''Model schema mismatch!'' @ nl"

definition alloc_fail_msg :: string where
  "alloc_fail_msg = ''Tensor allocation failed'' @ nl"

definition fw_boot :: "'e tflm_model \<Rightarrow> 'e fw_state \<Rightarrow> 'e fw_state" where
  "fw_boot m s =
     (let s1 = s\<lparr>fw_trace := fw_trace s @ [StdioInit, SleepMs 500, Print boot_msg],
                 fw_adc := adc_select_input 0 (adc_gpio_init 26 (adc_init (fw_adc s)))\<rparr>
      in if model_version m \<noteq> TFLITE_SCHEMA_VERSION
         then s1\<lparr>fw_trace := fw_trace s1 @ [Print mismatch_msg], fw_phase := Halted SchemaMismatch\<rparr>
         else (case AllocateTensors m (micro_interpreter m) of
                 (st, it) \<Rightarrow>
                   if st \<noteq> kTfLiteOk
                   then s1\<lparr>fw_interp := it, fw_trace := fw_trace s1 @ [Print alloc_fail_msg],
                           fw_phase := Halted AllocationFailed\<rparr>
                   else s1\<lparr>fw_interp := it, fw_phase := Running\<rparr>))"

section \<open>One iteration of the loop\<close>

definition infer_fail_msg :: string where
  "infer_fail_msg = ''Inference failed!'' @ nl"

text \<open>
  Read a frame, normalise it into the input tensor, invoke; on a failed invocation
  print and \<^verbatim>\<open>continue\<close> (which skips the rest of the body, the delay included);
  otherwise read \<^verbatim>\<open>output->data.f[0]\<close>, decide, and sleep 10 ms.
\<close>

definition fw_cycle :: "'e tflm_model \<Rightarrow> 'e fw_state \<Rightarrow> 'e fw_state" where
  "fw_cycle m s =
     (case read_microphone (fw_audio s) kAudioFrameSize (fw_adc s) of
        Inl e \<Rightarrow> s\<lparr>fw_phase := Faulted e\<rparr>
      | Inr (buf, adc') \<Rightarrow>
          (let s1 = s\<lparr>fw_audio := buf, fw_adc := adc'\<rparr> in
           case main_preprocess buf (it_input (fw_interp s)) of
             Inl e \<Rightarrow> s1\<lparr>fw_phase := Faulted e\<rparr>
           | Inr inp \<Rightarrow>
               (case Invoke m ((fw_interp s)\<lparr>it_input := inp\<rparr>) of
                  (st, it') \<Rightarrow>
                    (let s2 = s1\<lparr>fw_interp := it'\<rparr> in
                     if st \<noteq> kTfLiteOk
                     then s2\<lparr>fw_trace := fw_trace s @ [Print infer_fail_msg]\<rparr>
                     else (case c_load (it_output it') 0 of
                             Inl e \<Rightarrow> s2\<lparr>fw_phase := Faulted e\<rparr>
                           | Inr prob \<Rightarrow> s2\<lparr>fw_trace := fw_trace s @ decide prob @ [SleepMs 10]\<rparr>)))))"

section \<open>The machine\<close>

definition fw_step :: "'e tflm_model \<Rightarrow> 'e fw_state \<Rightarrow> 'e fw_state" where
  "fw_step m s =
     (case fw_phase s of
        Boot \<Rightarrow> fw_boot m s
      | Running \<Rightarrow> fw_cycle m s
      | Halted r \<Rightarrow> s
      | Faulted e \<Rightarrow> s)"

primrec fw_run :: "'e tflm_model \<Rightarrow> nat \<Rightarrow> 'e fw_state \<Rightarrow> 'e fw_state" where
  "fw_run m 0 s = s"
| "fw_run m (Suc n) s = fw_run m n (fw_step m s)"

inductive fw_reachable :: "'e tflm_model \<Rightarrow> (nat \<Rightarrow> nat \<Rightarrow> u16) \<Rightarrow> 'e fw_state \<Rightarrow> bool"
  for m conv where
  init: "fw_reachable m conv (fw_init m conv)"
| step: "fw_reachable m conv s \<Longrightarrow> fw_reachable m conv (fw_step m s)"

section \<open>The cycle's specification\<close>

text \<open>
  What the firmware assumes of the model without checking it: the input tensor,
  read through \<^verbatim>\<open>data.f\<close>, holds at least a frame of floats, the output tensor
  at least one float.
\<close>

definition model_shape_ok :: "'e tflm_model \<Rightarrow> bool" where
  "model_shape_ok m = (kAudioFrameSize \<le> input_f_len m \<and> 0 < output_f_len m)"

text \<open>
  The input tensor after a cycle's normalisation: the next frame of the ADC,
  normalised, followed by whatever the tensor held beyond the frame.
\<close>

definition cycle_frame :: "'e fw_state \<Rightarrow> i16 list" where
  "cycle_frame s = adc_samples (fw_adc s) kAudioFrameSize"

definition cycle_input :: "'e fw_state \<Rightarrow> real list" where
  "cycle_input s =
     map norm_sample (cycle_frame s) @ drop kAudioFrameSize (it_input (fw_interp s))"

text \<open>The invariant of the reachable states.\<close>

definition adc_configured :: "adc_state \<Rightarrow> bool" where
  "adc_configured a = (adc_enabled a \<and> adc_input a = 0 \<and> 26 \<in> set (adc_gpio a))"

definition fw_inv :: "'e tflm_model \<Rightarrow> 'e fw_state \<Rightarrow> bool" where
  "fw_inv m s =
     (length (fw_audio s) = kAudioFrameSize \<and>
      (case fw_phase s of
         Boot \<Rightarrow> fw_trace s = [] \<and> adc_count (fw_adc s) = 0 \<and> fw_interp s = micro_interpreter m
       | Running \<Rightarrow>
           adc_configured (fw_adc s) \<and> model_version m = TFLITE_SCHEMA_VERSION \<and> allocate_ok m \<and>
           length (it_input (fw_interp s)) = input_f_len m \<and>
           length (it_output (fw_interp s)) = output_f_len m
       | Halted r \<Rightarrow>
           adc_configured (fw_adc s) \<and> adc_count (fw_adc s) = 0 \<and>
           it_arena (fw_interp s) = model_arena_init m \<and>
           (case r of
              SchemaMismatch \<Rightarrow> model_version m \<noteq> TFLITE_SCHEMA_VERSION
            | AllocationFailed \<Rightarrow> model_version m = TFLITE_SCHEMA_VERSION \<and> \<not> allocate_ok m)
       | Faulted e \<Rightarrow> True))"

section \<open>Test models\<close>

text \<open>
  The model stub of the specification's end-to-end scenario: a valid model of the
  given schema version and input length, one output, a pass that always returns the
  given status and writes the given probability. It is used to show that the
  hypotheses of the properties below hold together on concrete runs.
\<close>

definition stub_model :: "nat \<Rightarrow> nat \<Rightarrow> tflite_status \<Rightarrow> real \<Rightarrow> unit tflm_model" where
  "stub_model ver inlen st p =
     \<lparr>model_version = ver, model_arena_needed = 2048, model_ops_resolved = True,
      model_input_type = kTfLiteFloat32, model_input_len = inlen,
      model_output_type = kTfLiteFloat32, model_output_len = 1, model_arena_init = (),
      model_eval = (\<lambda>e x. (st, e, \<lambda>k. F32 p))\<rparr>"

definition demo_conv :: "nat \<Rightarrow> nat \<Rightarrow> u16" where
  "demo_conv ch k = of_nat (k * 97)"

abbreviation demo_ok :: "unit tflm_model" where
  "demo_ok \<equiv> stub_model 3 160 kTfLiteOk (9 / 10)"

abbreviation demo_running :: "unit fw_state" where
  "demo_running \<equiv> fw_step demo_ok (fw_init demo_ok demo_conv)"

abbreviation demo_fail :: "unit tflm_model" where
  "demo_fail \<equiv> stub_model 3 160 kTfLiteError (9 / 10)"

abbreviation demo_bad_version :: "unit tflm_model" where
  "demo_bad_version \<equiv> stub_model 2 160 kTfLiteOk (9 / 10)"

abbreviation demo_short :: "unit tflm_model" where
  "demo_short \<equiv> stub_model 3 100 kTfLiteOk (9 / 10)"

text \<open>The same model quantised: its input tensor holds 160 \<^verbatim>\<open>int8_t\<close> values.\<close>

abbreviation demo_int8_input :: "unit tflm_model" where
  "demo_int8_input \<equiv> (stub_model 3 160 kTfLiteOk (9 / 10))\<lparr>model_input_type := kTfLiteInt8\<rparr>"

section \<open>Lemmas: the phases\<close>

text \<open>Evaluating the test models: their fields and their tensors' float views.\<close>

lemmas stub_model_facts = stub_model_def input_f_len_def output_f_len_def

lemma read_microphone_frame:
  assumes "length buf = kAudioFrameSize" "adc_enabled a"
  shows "read_microphone buf kAudioFrameSize a = Inr (adc_samples a kAudioFrameSize, adc_skip a kAudioFrameSize)"
  using assms by (simp add: read_microphone_def read_microphone_loop_closed)

lemma main_preprocess_frame:
  assumes "length buf = kAudioFrameSize" "kAudioFrameSize \<le> length inp"
  shows "main_preprocess buf inp = Inr (map norm_sample buf @ drop kAudioFrameSize inp)"
  using assms by (simp add: main_preprocess_def fold_main_preprocess_body preprocess_loop_closed)

lemma fw_cycle_eval:
  assumes "length (fw_audio s) = kAudioFrameSize" "adc_enabled (fw_adc s)"
    "kAudioFrameSize \<le> length (it_input (fw_interp s))" "0 < length (it_output (fw_interp s))"
    "model_eval m (it_arena (fw_interp s)) (cycle_input s) = (st, e', out)"
  shows "fw_cycle m s =
    (let s2 = s\<lparr>fw_audio := cycle_frame s, fw_adc := adc_skip (fw_adc s) kAudioFrameSize,
                fw_interp := (fw_interp s)\<lparr>it_input := cycle_input s, it_arena := e',
                   it_output := map out [0..<length (it_output (fw_interp s))]\<rparr>\<rparr>
     in if st \<noteq> kTfLiteOk then s2\<lparr>fw_trace := fw_trace s @ [Print infer_fail_msg]\<rparr>
        else s2\<lparr>fw_trace := fw_trace s @ decide (out 0) @ [SleepMs 10]\<rparr>)"
proof -
  have rd: "read_microphone (fw_audio s) kAudioFrameSize (fw_adc s) =
            Inr (cycle_frame s, adc_skip (fw_adc s) kAudioFrameSize)"
    using assms(1,2) by (simp add: read_microphone_frame cycle_frame_def)
  have pp: "main_preprocess (cycle_frame s) (it_input (fw_interp s)) = Inr (cycle_input s)"
    using assms(3) by (simp add: main_preprocess_frame cycle_frame_def cycle_input_def)
  have inv: "Invoke m ((fw_interp s)\<lparr>it_input := cycle_input s\<rparr>) =
     (st, (fw_interp s)\<lparr>it_input := cycle_input s, it_arena := e',
                   it_output := map out [0..<length (it_output (fw_interp s))]\<rparr>)"
    using assms(5) by (simp add: Invoke_def)
  have ld: "c_load (map out [0..<length (it_output (fw_interp s))]) 0 = Inr (out 0)"
    using assms(4) by (simp add: c_array_simps)
  show ?thesis
    using rd pp inv ld by (simp add: fw_cycle_def Let_def)
qed

lemma main_preprocess_short:
  assumes "length inp < kAudioFrameSize"
  shows "main_preprocess buf inp = Inl OutOfBounds"
  using assms by (simp add: main_preprocess_def fold_main_preprocess_body preprocess_loop_closed
      kAudioFrameSize_def)

lemma fw_cycle_short_input:
  assumes "length (fw_audio s) = kAudioFrameSize" "adc_enabled (fw_adc s)"
    "length (it_input (fw_interp s)) < kAudioFrameSize"
  shows "fw_cycle m s = s\<lparr>fw_audio := cycle_frame s, fw_adc := adc_skip (fw_adc s) kAudioFrameSize,
                         fw_phase := Faulted OutOfBounds\<rparr>"
proof -
  have rd: "read_microphone (fw_audio s) kAudioFrameSize (fw_adc s) =
            Inr (cycle_frame s, adc_skip (fw_adc s) kAudioFrameSize)"
    using assms(1,2) by (simp add: read_microphone_frame cycle_frame_def)
  show ?thesis
    using rd assms(3) by (simp add: fw_cycle_def main_preprocess_short)
qed

lemma fw_cycle_no_output:
  assumes "length (fw_audio s) = kAudioFrameSize" "adc_enabled (fw_adc s)"
    "kAudioFrameSize \<le> length (it_input (fw_interp s))" "it_output (fw_interp s) = []"
    "model_eval m (it_arena (fw_interp s)) (cycle_input s) = (st, e', out)"
  shows "fw_cycle m s =
    (let s2 = s\<lparr>fw_audio := cycle_frame s, fw_adc := adc_skip (fw_adc s) kAudioFrameSize,
                fw_interp := (fw_interp s)\<lparr>it_input := cycle_input s, it_arena := e', it_output := []\<rparr>\<rparr>
     in if st \<noteq> kTfLiteOk then s2\<lparr>fw_trace := fw_trace s @ [Print infer_fail_msg]\<rparr>
        else s2\<lparr>fw_phase := Faulted OutOfBounds\<rparr>)"
proof -
  have rd: "read_microphone (fw_audio s) kAudioFrameSize (fw_adc s) =
            Inr (cycle_frame s, adc_skip (fw_adc s) kAudioFrameSize)"
    using assms(1,2) by (simp add: read_microphone_frame cycle_frame_def)
  have pp: "main_preprocess (cycle_frame s) (it_input (fw_interp s)) = Inr (cycle_input s)"
    using assms(3) by (simp add: main_preprocess_frame cycle_frame_def cycle_input_def)
  show ?thesis
    using rd pp assms(4,5) by (simp add: fw_cycle_def Let_def Invoke_def c_array_simps)
qed

lemma fw_boot_eq:
  "fw_boot m s =
     (let s1 = s\<lparr>fw_trace := fw_trace s @ [StdioInit, SleepMs 500, Print boot_msg],
                 fw_adc := adc_select_input 0 (adc_gpio_init 26 (adc_init (fw_adc s)))\<rparr>
      in if model_version m \<noteq> TFLITE_SCHEMA_VERSION
         then s1\<lparr>fw_trace := fw_trace s1 @ [Print mismatch_msg], fw_phase := Halted SchemaMismatch\<rparr>
         else if \<not> allocate_ok m
         then s1\<lparr>fw_interp := micro_interpreter m, fw_trace := fw_trace s1 @ [Print alloc_fail_msg],
                 fw_phase := Halted AllocationFailed\<rparr>
         else s1\<lparr>fw_interp := snd (AllocateTensors m (micro_interpreter m)), fw_phase := Running\<rparr>)"
  by (simp add: fw_boot_def AllocateTensors_def Let_def)

lemma adc_configured_boot:
  "adc_configured (adc_select_input 0 (adc_gpio_init 26 (adc_init a)))"
  by (simp add: adc_configured_def adc_select_input_def adc_gpio_init_def adc_init_def)

lemma adc_count_boot [simp]:
  "adc_count (adc_select_input 0 (adc_gpio_init 26 (adc_init a))) = adc_count a"
  by (simp add: adc_select_input_def adc_gpio_init_def adc_init_def)

lemma fw_inv_boot:
  assumes "fw_inv m s" "fw_phase s = Boot"
  shows "fw_inv m (fw_boot m s)"
  using assms adc_configured_boot [of "fw_adc s"]
  by (auto simp: fw_inv_def fw_boot_eq Let_def AllocateTensors_def micro_interpreter_def)

lemma adc_configured_skip [simp]:
  "adc_configured (adc_skip a n) = adc_configured a"
  by (simp add: adc_configured_def adc_skip_def)

lemma length_cycle_frame [simp]:
  "length (cycle_frame s) = kAudioFrameSize"
  by (simp add: cycle_frame_def)

lemma length_cycle_input:
  "kAudioFrameSize \<le> length (it_input (fw_interp s)) \<Longrightarrow>
     length (cycle_input s) = length (it_input (fw_interp s))"
  by (simp add: cycle_input_def)

lemma fw_inv_cycle:
  assumes "fw_inv m s" "fw_phase s = Running"
  shows "fw_inv m (fw_cycle m s)"
proof -
  have len: "length (fw_audio s) = kAudioFrameSize" and cfg: "adc_configured (fw_adc s)"
    and run: "model_version m = TFLITE_SCHEMA_VERSION" "allocate_ok m"
    and lin: "length (it_input (fw_interp s)) = input_f_len m"
    and lout: "length (it_output (fw_interp s)) = output_f_len m"
    using assms by (simp_all add: fw_inv_def)
  then have en: "adc_enabled (fw_adc s)" by (simp add: adc_configured_def)
  obtain st e' out where ev: "model_eval m (it_arena (fw_interp s)) (cycle_input s) = (st, e', out)"
    by (cases "model_eval m (it_arena (fw_interp s)) (cycle_input s)") auto
  consider (short) "length (it_input (fw_interp s)) < kAudioFrameSize"
    | (noout) "kAudioFrameSize \<le> length (it_input (fw_interp s))" "it_output (fw_interp s) = []"
    | (ok) "kAudioFrameSize \<le> length (it_input (fw_interp s))" "0 < length (it_output (fw_interp s))"
    by fastforce
  then show ?thesis
  proof cases
    case short
    then show ?thesis
      using len en by (simp add: fw_cycle_short_input fw_inv_def)
  next
    case noout
    then show ?thesis
      using len en ev assms(2) cfg run lin lout
      by (simp add: fw_cycle_no_output fw_inv_def Let_def length_cycle_input)
  next
    case ok
    then show ?thesis
      using len en ev assms(2) cfg run lin lout
      by (simp add: fw_cycle_eval fw_inv_def Let_def length_cycle_input)
  qed
qed

lemma fw_inv_step:
  "fw_inv m s \<Longrightarrow> fw_inv m (fw_step m s)"
  by (cases "fw_phase s") (simp_all add: fw_step_def fw_inv_boot fw_inv_cycle)

lemma fw_inv_init:
  "fw_inv m (fw_init m conv)"
  by (simp add: fw_inv_def fw_init_def adc_reset_def)

lemma fw_reachable_inv:
  "fw_reachable m conv s \<Longrightarrow> fw_inv m s"
  by (induction rule: fw_reachable.induct) (simp_all add: fw_inv_init fw_inv_step)

lemma fw_cycle_phase:
  "fw_phase (fw_cycle m s) = fw_phase s \<or> (\<exists>e. fw_phase (fw_cycle m s) = Faulted e)"
  by (auto simp: fw_cycle_def Let_def split: sum.split prod.split)

lemma fw_cycle_trace:
  "fw_trace (fw_cycle m s) = fw_trace s \<or>
   fw_trace (fw_cycle m s) = fw_trace s @ [Print infer_fail_msg] \<or>
   (\<exists>p. fw_trace (fw_cycle m s) = fw_trace s @ decide p @ [SleepMs 10])"
  by (auto simp: fw_cycle_def Let_def split: sum.split prod.split)

lemma fw_run_fixpoint:
  "fw_step m s = s \<Longrightarrow> fw_run m n s = s"
  by (induction n) simp_all

lemma fw_step_halted [simp]:
  "fw_phase s = Halted r \<Longrightarrow> fw_step m s = s"
  by (simp add: fw_step_def)

lemma fw_step_running:
  assumes "fw_inv m s" "fw_phase s = Running" "model_shape_ok m"
    "model_eval m (it_arena (fw_interp s)) (cycle_input s) = (st, e', out)"
  shows "fw_step m s =
    (let s2 = s\<lparr>fw_audio := cycle_frame s, fw_adc := adc_skip (fw_adc s) kAudioFrameSize,
                fw_interp := (fw_interp s)\<lparr>it_input := cycle_input s, it_arena := e',
                   it_output := map out [0..<output_f_len m]\<rparr>\<rparr>
     in if st \<noteq> kTfLiteOk then s2\<lparr>fw_trace := fw_trace s @ [Print infer_fail_msg]\<rparr>
        else s2\<lparr>fw_trace := fw_trace s @ decide (out 0) @ [SleepMs 10]\<rparr>)"
proof -
  have "length (fw_audio s) = kAudioFrameSize" "adc_enabled (fw_adc s)"
    "kAudioFrameSize \<le> length (it_input (fw_interp s))" "0 < length (it_output (fw_interp s))"
    "length (it_output (fw_interp s)) = output_f_len m"
    using assms(1-3) by (simp_all add: fw_inv_def adc_configured_def model_shape_ok_def)
  with assms(2,4) show ?thesis
    by (simp add: fw_step_def fw_cycle_eval)
qed

lemma fw_step_running_phase:
  assumes "fw_inv m s" "fw_phase s = Running" "model_shape_ok m"
  shows "fw_phase (fw_step m s) = Running \<and>
         adc_count (fw_adc (fw_step m s)) = adc_count (fw_adc s) + kAudioFrameSize"
proof -
  obtain st e' out where "model_eval m (it_arena (fw_interp s)) (cycle_input s) = (st, e', out)"
    by (cases "model_eval m (it_arena (fw_interp s)) (cycle_input s)") auto
  with assms show ?thesis
    by (simp add: fw_step_running Let_def adc_skip_def)
qed

lemma fw_step_not_faulted:
  assumes "fw_inv m s" "model_shape_ok m" "\<forall>e. fw_phase s \<noteq> Faulted e"
  shows "\<forall>e. fw_phase (fw_step m s) \<noteq> Faulted e"
proof (cases "fw_phase s")
  case Boot
  then show ?thesis by (simp add: fw_step_def fw_boot_eq Let_def)
next
  case Running
  with assms(1,2) show ?thesis by (simp add: fw_step_running_phase)
next
  case (Halted r)
  then show ?thesis by simp
next
  case (Faulted f)
  with assms(1,3) show ?thesis
    by (simp add: fw_step_def)
qed

lemma fw_reachable_not_faulted:
  assumes "fw_reachable m conv s" "model_shape_ok m"
  shows "\<forall>e. fw_phase s \<noteq> Faulted e"
  using assms(1)
proof (induction rule: fw_reachable.induct)
  case init
  then show ?case by (simp add: fw_init_def)
next
  case (step s)
  then show ?case
    using fw_step_not_faulted [OF fw_reachable_inv [OF step.hyps(1)] assms(2)] by blast
qed

lemma fw_init_step_running:
  assumes "model_version m = TFLITE_SCHEMA_VERSION" "allocate_ok m"
  shows "fw_phase (fw_step m (fw_init m conv)) = Running"
  using assms by (simp add: fw_step_def fw_init_def fw_boot_eq Let_def)

lemma fw_run_constant_output:
  assumes "fw_inv m s" "fw_phase s = Running" "model_shape_ok m"
    "\<And>e x. fst (model_eval m e x) = kTfLiteOk" "\<And>e x. snd (snd (model_eval m e x)) 0 = F32 p"
  shows "fw_phase (fw_run m n s) = Running \<and> fw_inv m (fw_run m n s) \<and>
         count_list (fw_trace (fw_run m n s)) (Print footstep_msg) =
         count_list (fw_trace s) (Print footstep_msg) + (if 1 / 2 < p then n else 0)"
  using assms(1,2)
proof (induction n arbitrary: s)
  case 0
  then show ?case by simp
next
  case (Suc n)
  obtain st e' out where ev: "model_eval m (it_arena (fw_interp s)) (cycle_input s) = (st, e', out)"
    by (cases "model_eval m (it_arena (fw_interp s)) (cycle_input s)") auto
  with assms(4,5) [of "it_arena (fw_interp s)" "cycle_input s"]
  have "st = kTfLiteOk" "out 0 = F32 p" by simp_all
  with Suc.prems assms(3) ev
  have "fw_phase (fw_step m s) = Running" and
    "fw_trace (fw_step m s) = fw_trace s @ decide (F32 p) @ [SleepMs 10]"
    by (simp_all add: fw_step_running Let_def)
  moreover have "fw_inv m (fw_step m s)"
    using Suc.prems(1) by (rule fw_inv_step)
  ultimately show ?case
    using Suc.IH [of "fw_step m s"] by (simp add: count_decide)
qed

lemma boot_trace_no_footstep:
  "count_list (fw_trace (fw_step m (fw_init m conv))) (Print footstep_msg) = 0"
  by (simp add: fw_step_def fw_init_def fw_boot_eq Let_def boot_msg_def footstep_msg_def
      mismatch_msg_def alloc_fail_msg_def)

lemma fw_reachable_boot:
  "fw_reachable m conv (fw_step m (fw_init m conv))"
  by (rule fw_reachable.step [OF fw_reachable.init])

lemma stub_model_running:
  "model_version (stub_model 3 160 st p) = TFLITE_SCHEMA_VERSION"
  "allocate_ok (stub_model 3 160 st p)"
  "model_shape_ok (stub_model 3 160 st p)"
  "fw_phase (fw_step (stub_model 3 160 st p) (fw_init (stub_model 3 160 st p) conv)) = Running"
  by (simp_all add: fw_step_def fw_init_def fw_boot_eq Let_def stub_model_facts
      TFLITE_SCHEMA_VERSION_def allocate_ok_def kTensorArenaSize_def model_shape_ok_def
      kAudioFrameSize_def)

lemma demo_facts:
  "fw_reachable demo_ok demo_conv demo_running"
  "fw_phase demo_running = Running"
  "model_shape_ok demo_ok"
  by (simp_all only: fw_reachable_boot)
    (simp_all add: fw_step_def fw_init_def fw_boot_eq Let_def stub_model_facts TFLITE_SCHEMA_VERSION_def
        allocate_ok_def kTensorArenaSize_def model_shape_ok_def kAudioFrameSize_def)

text \<open>A running state whose input view is shorter than a frame faults in its cycle.\<close>

lemma fw_step_short_input:
  assumes "fw_inv m s" "fw_phase s = Running" "input_f_len m < kAudioFrameSize"
  shows "fw_phase (fw_step m s) = Faulted OutOfBounds"
proof -
  have "length (fw_audio s) = kAudioFrameSize" "adc_enabled (fw_adc s)"
    "length (it_input (fw_interp s)) < kAudioFrameSize"
    using assms by (simp_all add: fw_inv_def adc_configured_def)
  with assms(2) show ?thesis
    by (simp add: fw_step_def fw_cycle_short_input)
qed

text \<open>A step writes into \<^verbatim>\<open>audio_buffer\<close> only conversions of the next frame.\<close>

lemma fw_step_audio_set:
  "set (fw_audio (fw_step m s)) \<subseteq> set (fw_audio s) \<union> set (adc_samples (fw_adc s) kAudioFrameSize)"
proof (cases "fw_phase s")
  case Running
  show ?thesis
  proof (cases "read_microphone (fw_audio s) kAudioFrameSize (fw_adc s)")
    case (Inl e)
    with Running show ?thesis
      by (simp add: fw_step_def fw_cycle_def)
  next
    case (Inr r)
    obtain buf a' where r: "r = (buf, a')" by (cases r)
    have buf: "buf = adc_samples (fw_adc s) kAudioFrameSize @ drop kAudioFrameSize (fw_audio s)"
      using Inr r by (simp add: read_microphone_def read_microphone_loop_closed split: if_splits)
    have "fw_audio (fw_step m s) = buf"
      using Running Inr r by (simp add: fw_step_def fw_cycle_def Let_def split: sum.split prod.split)
    with buf show ?thesis
      using set_drop_subset [of kAudioFrameSize "fw_audio s"] by auto
  qed
qed (simp_all add: fw_step_def fw_boot_eq Let_def)

section \<open>Properties of the control loop\<close>

text \<open>
  C2. Start-up validation decides the phase after the start-up sequence: a model
  whose schema version differs from \<^verbatim>\<open>TFLITE_SCHEMA_VERSION\<close> halts the
  program; otherwise, if an operator has no kernel, a tensor's element type has no
  fixed size, or the working set does not fit the 128 KiB arena, tensor allocation
  fails and the program halts; otherwise the loop starts.
\<close>

theorem boot_validation_outcome:
  "fw_phase (fw_step m (fw_init m conv)) =
     (if model_version m \<noteq> TFLITE_SCHEMA_VERSION then Halted SchemaMismatch
      else if \<not> (model_ops_resolved m \<and> TfLiteTypeSizeOf (model_input_type m) \<noteq> None \<and>
                 TfLiteTypeSizeOf (model_output_type m) \<noteq> None \<and>
                 model_arena_needed m \<le> kTensorArenaSize)
      then Halted AllocationFailed
      else Running)"
  by (simp add: fw_step_def fw_init_def fw_boot_eq Let_def allocate_ok_def)

text \<open>
  C3. When validation fails (schema mismatch or allocation failure) the program
  stays in its halt forever: every later state is the state start-up left, no
  sample was ever converted and no inference pass ever ran.
\<close>

theorem validation_failure_halts_forever:
  assumes "model_version m \<noteq> TFLITE_SCHEMA_VERSION \<or> \<not> allocate_ok m"
  shows "fw_run m (Suc n) (fw_init m conv) = fw_boot m (fw_init m conv) \<and>
         fw_phase (fw_boot m (fw_init m conv)) \<noteq> Running \<and>
         adc_count (fw_adc (fw_boot m (fw_init m conv))) = 0 \<and>
         fw_interp (fw_boot m (fw_init m conv)) = micro_interpreter m"
proof -
  let ?b = "fw_boot m (fw_init m conv)"
  have h: "fw_phase ?b \<noteq> Running" and "fw_step m ?b = ?b"
    using assms by (auto simp: fw_step_def fw_boot_eq Let_def fw_init_def)
  then have "fw_run m n ?b = ?b"
    by (simp add: fw_run_fixpoint)
  moreover have "fw_step m (fw_init m conv) = ?b"
    by (simp add: fw_step_def fw_init_def)
  moreover have "adc_count (fw_adc ?b) = 0 \<and> fw_interp ?b = micro_interpreter m"
    using assms by (auto simp: fw_boot_eq Let_def fw_init_def adc_reset_def)
  ultimately show ?thesis
    using h by simp
qed

text \<open>
  C4. A cycle whose inference succeeds, from any reachable running state of a model
  whose tensors fit: the buffer holds the next 160 conversions, the converter has
  advanced by 160, the input tensor holds the normalised frame, the output tensor
  what the pass wrote, and the trace gains the decision on \<^verbatim>\<open>output[0]\<close>
  followed by one 10 ms delay.
\<close>

theorem cycle_success_behaviour:
  assumes "fw_reachable m conv s" "fw_phase s = Running" "model_shape_ok m"
    "model_eval m (it_arena (fw_interp s)) (cycle_input s) = (kTfLiteOk, e', out)"
  shows "fw_step m s =
    s\<lparr>fw_audio := adc_samples (fw_adc s) kAudioFrameSize,
      fw_adc := adc_skip (fw_adc s) kAudioFrameSize,
      fw_interp := (fw_interp s)\<lparr>it_input := cycle_input s, it_arena := e',
                      it_output := map out [0..<output_f_len m]\<rparr>,
      fw_trace := fw_trace s @ decide (out 0) @ [SleepMs 10]\<rparr>"
  using fw_step_running [OF fw_reachable_inv [OF assms(1)] assms(2-4)]
  by (simp add: cycle_frame_def)

text \<open>
  C5. A cycle whose inference fails is not fatal: the frame was read and normalised
  as in C4, the program stays running, reports the failure, makes no decision and,
  because of \<^verbatim>\<open>continue\<close>, does not sleep before the next cycle.
\<close>

theorem cycle_inference_failure_continues:
  assumes "fw_reachable m conv s" "fw_phase s = Running" "model_shape_ok m"
    "model_eval m (it_arena (fw_interp s)) (cycle_input s) = (st, e', out)" "st \<noteq> kTfLiteOk"
  shows "fw_step m s =
    s\<lparr>fw_audio := adc_samples (fw_adc s) kAudioFrameSize,
      fw_adc := adc_skip (fw_adc s) kAudioFrameSize,
      fw_interp := (fw_interp s)\<lparr>it_input := cycle_input s, it_arena := e',
                      it_output := map out [0..<output_f_len m]\<rparr>,
      fw_trace := fw_trace s @ [Print infer_fail_msg]\<rparr>"
  using fw_step_running [OF fw_reachable_inv [OF assms(1)] assms(2-4)] assms(5)
  by (simp add: cycle_frame_def)

text \<open>
  C6. In every reachable state the audio buffer holds exactly one frame; a running
  program has its ADC enabled on input 0 with GP26 configured, a validated model and
  tensors of the allocated sizes; a halted program never converted a sample nor ran
  an inference pass.
\<close>

theorem reachable_state_invariant:
  assumes "fw_reachable m conv s"
  shows "length (fw_audio s) = kAudioFrameSize \<and>
    (fw_phase s = Running \<longrightarrow> adc_configured (fw_adc s) \<and>
       model_version m = TFLITE_SCHEMA_VERSION \<and> allocate_ok m \<and>
       length (it_input (fw_interp s)) = input_f_len m \<and>
       length (it_output (fw_interp s)) = output_f_len m) \<and>
    (fw_phase s = Halted r \<longrightarrow> adc_count (fw_adc s) = 0 \<and>
       it_arena (fw_interp s) = model_arena_init m)"
  using fw_reachable_inv [OF assms] by (simp add: fw_inv_def split: phase.splits)

text \<open>
  C7. When the model's input tensor holds at least a frame and its output tensor at
  least one value, no reachable state has faulted: every array access of the loop
  is in bounds and no ADC read hangs.
\<close>

theorem no_fault_when_shapes_fit:
  assumes "fw_reachable m conv s" "model_shape_ok m"
  shows "fw_phase s \<noteq> Faulted e"
  using fw_reachable_not_faulted [OF assms] by blast

text \<open>
  C9. End to end: with a validated model that always succeeds and always outputs
  the same probability, start-up followed by \<open>n\<close> cycles prints
  \<^verbatim>\<open>Footstep detected!\<close> exactly \<open>n\<close> times if the probability is above one
  half, and never otherwise.
\<close>

theorem footstep_count_constant_output:
  assumes "model_version m = TFLITE_SCHEMA_VERSION" "allocate_ok m" "model_shape_ok m"
    "\<And>e x. fst (model_eval m e x) = kTfLiteOk" "\<And>e x. snd (snd (model_eval m e x)) 0 = F32 p"
  shows "count_list (fw_trace (fw_run m (Suc n) (fw_init m conv))) (Print footstep_msg) =
         (if 1 / 2 < p then n else 0)"
proof -
  let ?b = "fw_step m (fw_init m conv)"
  have "fw_inv m ?b"
    by (intro fw_inv_step fw_inv_init)
  moreover have "fw_phase ?b = Running"
    using assms(1,2) by (rule fw_init_step_running)
  ultimately show ?thesis
    using fw_run_constant_output [OF _ _ assms(3-5), of ?b n] boot_trace_no_footstep [of m conv]
    by simp
qed

text \<open>
  C12. The firmware never checks the input tensor's size: a validated model whose
  input tensor holds fewer than 160 values makes the first cycle write past its
  end.
\<close>

theorem shape_mismatch_faults:
  assumes "model_version m = TFLITE_SCHEMA_VERSION" "allocate_ok m"
    "input_f_len m < kAudioFrameSize"
  shows "fw_phase (fw_run m 2 (fw_init m conv)) = Faulted OutOfBounds"
proof -
  let ?b = "fw_step m (fw_init m conv)"
  have "fw_inv m ?b" "fw_phase ?b = Running"
    using fw_inv_step [OF fw_inv_init] fw_init_step_running [OF assms(1,2)] by blast+
  from fw_step_short_input [OF this assms(3)] show ?thesis
    by (simp add: numeral_2_eq_2)
qed

text \<open>
  C24. Nor does it check the input tensor's element type: a validated model whose
  input tensor is \<^verbatim>\<open>int8\<close>-quantised (one byte per element) with fewer than
  640 elements, a quantised frame of 160 samples included, makes the first cycle
  write \<^verbatim>\<open>input->data.f[i]\<close> past the tensor's bytes.
\<close>

theorem quantized_input_faults:
  assumes "model_version m = TFLITE_SCHEMA_VERSION" "allocate_ok m"
    "model_input_type m = kTfLiteInt8" "model_input_len m < 4 * kAudioFrameSize"
  shows "fw_phase (fw_run m 2 (fw_init m conv)) = Faulted OutOfBounds"
proof -
  let ?b = "fw_step m (fw_init m conv)"
  have "fw_inv m ?b" "fw_phase ?b = Running"
    using fw_inv_step [OF fw_inv_init] fw_init_step_running [OF assms(1,2)] by blast+
  moreover have "input_f_len m < kAudioFrameSize"
    using assms(3,4) by (simp add: input_f_len_def)
  ultimately show ?thesis
    using fw_step_short_input by (simp add: numeral_2_eq_2)
qed

text \<open>
  C14. What a cycle feeds the model: every normalised sample of the frame lies in
  \<open>[0, 4095/2048]\<close>, since the ADC delivers unsigned 12-bit codes; the model
  never sees a negative input, and sees inputs above 1.
\<close>

theorem normalised_input_range:
  assumes "fw_reachable m conv s" "fw_phase s = Running" "model_shape_ok m"
  shows "\<forall>x \<in> set (take kAudioFrameSize (it_input (fw_interp (fw_step m s)))).
           0 \<le> x \<and> x \<le> 4095 / 2048"
proof -
  obtain st e' out where ev: "model_eval m (it_arena (fw_interp s)) (cycle_input s) = (st, e', out)"
    by (cases "model_eval m (it_arena (fw_interp s)) (cycle_input s)") auto
  have "take kAudioFrameSize (it_input (fw_interp (fw_step m s))) = map norm_sample (cycle_frame s)"
    using fw_step_running [OF fw_reachable_inv [OF assms(1)] assms(2,3) ev]
    by (simp add: Let_def cycle_input_def)
  moreover have "0 \<le> norm_sample x \<and> norm_sample x \<le> 4095 / 2048" if "x \<in> set (cycle_frame s)" for x
    using norm_sample_12bit [OF adc_samples_12bit_set] that by (simp add: cycle_frame_def)
  ultimately show ?thesis
    by auto
qed

text \<open>
  C15. The event sink is called at most once per step of the program.
\<close>

theorem step_at_most_one_event:
  "count_list (fw_trace (fw_step m s)) (Print footstep_msg) \<le>
   Suc (count_list (fw_trace s) (Print footstep_msg))"
proof (cases "fw_phase s")
  case Boot
  then show ?thesis
    by (simp add: fw_step_def fw_boot_eq Let_def boot_msg_def footstep_msg_def
        mismatch_msg_def alloc_fail_msg_def)
next
  case Running
  have "Print infer_fail_msg \<noteq> Print footstep_msg"
    by (simp add: infer_fail_msg_def footstep_msg_def)
  with Running show ?thesis
    using fw_cycle_trace [of m s] by (auto simp: fw_step_def count_decide)
qed (simp_all add: fw_step_def)

text \<open>
  C16. There is no transition from the loop to a halt: whatever a cycle meets, a
  running program is never halted by it (it stays running, or faults).
\<close>

theorem running_never_halts:
  assumes "fw_phase s = Running"
  shows "fw_phase (fw_step m s) \<noteq> Halted r"
  using assms fw_cycle_phase [of m s] by (auto simp: fw_step_def)

text \<open>
  C26. Storing \<^verbatim>\<open>adc_read()\<close>'s \<^verbatim>\<open>uint16_t\<close> into the \<^verbatim>\<open>int16_t\<close>
  \<^verbatim>\<open>audio_buffer\<close> never wraps: in every reachable state each sample of the
  buffer, read as signed, lies in \<open>[0, 4096)\<close>, so no sample is ever negative
  (the comment's "centered around 0" is never the case).
\<close>

theorem audio_samples_never_wrap:
  assumes "fw_reachable m conv s"
  shows "\<forall>x \<in> set (fw_audio s). 0 \<le> sint x \<and> sint x < 4096"
  using assms
proof (induction rule: fw_reachable.induct)
  case init
  then show ?case by (simp add: fw_init_def)
next
  case (step s)
  have "\<And>x. x \<in> set (adc_samples (fw_adc s) kAudioFrameSize) \<Longrightarrow> 0 \<le> sint x \<and> sint x < 4096"
  proof -
    fix x assume "x \<in> set (adc_samples (fw_adc s) kAudioFrameSize)"
    then have u: "unat x < 4096" by (rule adc_samples_12bit_set)
    then have "sint x = int (unat x)" by (intro sint_small_word) simp
    with u show "0 \<le> sint x \<and> sint x < 4096" by linarith
  qed
  with step.IH fw_step_audio_set [of m s] show ?case by blast
qed
section \<open>Witnesses\<close>

theorem audio_samples_never_wrap_witness:
  "fw_reachable demo_ok demo_conv (fw_step demo_ok demo_running) \<and>
   0 \<le> sint (fw_audio (fw_step demo_ok demo_running) ! 5) \<and>
   sint (fw_audio (fw_step demo_ok demo_running) ! 5) < 4096"
proof -
  have r: "fw_reachable demo_ok demo_conv (fw_step demo_ok demo_running)"
    by (rule fw_reachable.step [OF demo_facts(1)])
  then have "length (fw_audio (fw_step demo_ok demo_running)) = 160"
    using fw_reachable_inv [OF r] by (simp add: fw_inv_def kAudioFrameSize_def)
  then have "fw_audio (fw_step demo_ok demo_running) ! 5 \<in> set (fw_audio (fw_step demo_ok demo_running))"
    by (intro nth_mem) simp
  then show ?thesis
    using r audio_samples_never_wrap [OF r] by blast
qed

theorem quantized_input_faults_witness:
  "model_version demo_int8_input = TFLITE_SCHEMA_VERSION \<and> allocate_ok demo_int8_input \<and>
   model_input_type demo_int8_input = kTfLiteInt8 \<and>
   model_input_len demo_int8_input < 4 * kAudioFrameSize \<and>
   fw_phase (fw_run demo_int8_input 2 (fw_init demo_int8_input demo_conv)) = Faulted OutOfBounds"
proof -
  have h: "model_version demo_int8_input = TFLITE_SCHEMA_VERSION" "allocate_ok demo_int8_input"
    "model_input_type demo_int8_input = kTfLiteInt8" "model_input_len demo_int8_input < 4 * kAudioFrameSize"
    by (simp_all add: stub_model_facts TFLITE_SCHEMA_VERSION_def allocate_ok_def kTensorArenaSize_def
        kAudioFrameSize_def)
  show ?thesis
    using h quantized_input_faults [OF h, of demo_conv] by blast
qed

theorem cycle_success_behaviour_witness:
  "fw_reachable demo_ok demo_conv demo_running \<and> fw_phase demo_running = Running \<and>
   model_shape_ok demo_ok \<and>
   model_eval demo_ok (it_arena (fw_interp demo_running)) (cycle_input demo_running) =
     (kTfLiteOk, (), \<lambda>k. F32 (9 / 10)) \<and>
   fw_step demo_ok demo_running =
    demo_running\<lparr>fw_audio := adc_samples (fw_adc demo_running) kAudioFrameSize,
      fw_adc := adc_skip (fw_adc demo_running) kAudioFrameSize,
      fw_interp := (fw_interp demo_running)\<lparr>it_input := cycle_input demo_running, it_arena := (),
                      it_output := map (\<lambda>k. F32 (9 / 10)) [0..<output_f_len demo_ok]\<rparr>,
      fw_trace := fw_trace demo_running @ decide (F32 (9 / 10)) @ [SleepMs 10]\<rparr>"
proof -
  have ev: "model_eval demo_ok (it_arena (fw_interp demo_running)) (cycle_input demo_running) =
     (kTfLiteOk, (), \<lambda>k. F32 (9 / 10))"
    by (simp add: stub_model_facts)
  show ?thesis
    using demo_facts ev cycle_success_behaviour [OF demo_facts ev] by simp
qed

theorem footstep_count_constant_output_witness:
  "model_version demo_ok = TFLITE_SCHEMA_VERSION \<and> allocate_ok demo_ok \<and> model_shape_ok demo_ok \<and>
   (\<forall>e x. fst (model_eval demo_ok e x) = kTfLiteOk) \<and>
   (\<forall>e x. snd (snd (model_eval demo_ok e x)) 0 = F32 (9 / 10)) \<and>
   count_list (fw_trace (fw_run demo_ok (Suc 5) (fw_init demo_ok demo_conv))) (Print footstep_msg) = 5 \<and>
   count_list (fw_trace (fw_run (stub_model 3 160 kTfLiteOk (1 / 10)) (Suc 5)
     (fw_init (stub_model 3 160 kTfLiteOk (1 / 10)) demo_conv))) (Print footstep_msg) = 0"
proof -
  have h: "model_version demo_ok = TFLITE_SCHEMA_VERSION" "allocate_ok demo_ok" "model_shape_ok demo_ok"
    "\<And>e x. fst (model_eval demo_ok e x) = kTfLiteOk"
    "\<And>e x. snd (snd (model_eval demo_ok e x)) 0 = F32 (9 / 10)"
    by (simp_all add: stub_model_facts TFLITE_SCHEMA_VERSION_def allocate_ok_def kTensorArenaSize_def
        model_shape_ok_def kAudioFrameSize_def)
  have l: "model_version (stub_model 3 160 kTfLiteOk (1 / 10)) = TFLITE_SCHEMA_VERSION"
    "allocate_ok (stub_model 3 160 kTfLiteOk (1 / 10))"
    "model_shape_ok (stub_model 3 160 kTfLiteOk (1 / 10))"
    "\<And>e x. fst (model_eval (stub_model 3 160 kTfLiteOk (1 / 10)) e x) = kTfLiteOk"
    "\<And>e x. snd (snd (model_eval (stub_model 3 160 kTfLiteOk (1 / 10)) e x)) 0 = F32 (1 / 10)"
    by (simp_all add: stub_model_facts TFLITE_SCHEMA_VERSION_def allocate_ok_def kTensorArenaSize_def
        model_shape_ok_def kAudioFrameSize_def)
  show ?thesis
    using h footstep_count_constant_output [OF h, of 5 demo_conv]
      footstep_count_constant_output [OF l, of 5 demo_conv] by simp
qed

theorem validation_failure_halts_forever_witness:
  "model_version demo_bad_version \<noteq> TFLITE_SCHEMA_VERSION \<and>
   fw_run demo_bad_version (Suc 3) (fw_init demo_bad_version demo_conv) =
     fw_boot demo_bad_version (fw_init demo_bad_version demo_conv) \<and>
   fw_phase (fw_boot demo_bad_version (fw_init demo_bad_version demo_conv)) \<noteq> Running \<and>
   adc_count (fw_adc (fw_boot demo_bad_version (fw_init demo_bad_version demo_conv))) = 0 \<and>
   fw_interp (fw_boot demo_bad_version (fw_init demo_bad_version demo_conv)) =
     micro_interpreter demo_bad_version"
proof -
  have v: "model_version demo_bad_version \<noteq> TFLITE_SCHEMA_VERSION"
    by (simp add: stub_model_facts TFLITE_SCHEMA_VERSION_def)
  then have h: "model_version demo_bad_version \<noteq> TFLITE_SCHEMA_VERSION \<or> \<not> allocate_ok demo_bad_version"
    by blast
  show ?thesis
    using v validation_failure_halts_forever [OF h, of 3 demo_conv] by blast
qed

theorem cycle_inference_failure_continues_witness:
  "fw_reachable demo_fail demo_conv (fw_step demo_fail (fw_init demo_fail demo_conv)) \<and>
   fw_phase (fw_step demo_fail (fw_init demo_fail demo_conv)) = Running \<and>
   model_shape_ok demo_fail \<and>
   model_eval demo_fail (it_arena (fw_interp (fw_step demo_fail (fw_init demo_fail demo_conv))))
     (cycle_input (fw_step demo_fail (fw_init demo_fail demo_conv))) =
     (kTfLiteError, (), \<lambda>k. F32 (9 / 10)) \<and>
   kTfLiteError \<noteq> kTfLiteOk \<and>
   fw_step demo_fail (fw_step demo_fail (fw_init demo_fail demo_conv)) =
    (fw_step demo_fail (fw_init demo_fail demo_conv))\<lparr>
      fw_audio := adc_samples (fw_adc (fw_step demo_fail (fw_init demo_fail demo_conv))) kAudioFrameSize,
      fw_adc := adc_skip (fw_adc (fw_step demo_fail (fw_init demo_fail demo_conv))) kAudioFrameSize,
      fw_interp := (fw_interp (fw_step demo_fail (fw_init demo_fail demo_conv)))\<lparr>
          it_input := cycle_input (fw_step demo_fail (fw_init demo_fail demo_conv)), it_arena := (),
          it_output := map (\<lambda>k. F32 (9 / 10)) [0..<output_f_len demo_fail]\<rparr>,
      fw_trace := fw_trace (fw_step demo_fail (fw_init demo_fail demo_conv)) @ [Print infer_fail_msg]\<rparr>"
proof -
  have h: "fw_reachable demo_fail demo_conv (fw_step demo_fail (fw_init demo_fail demo_conv))"
    "fw_phase (fw_step demo_fail (fw_init demo_fail demo_conv)) = Running"
    "model_shape_ok demo_fail"
    "model_eval demo_fail (it_arena (fw_interp (fw_step demo_fail (fw_init demo_fail demo_conv))))
       (cycle_input (fw_step demo_fail (fw_init demo_fail demo_conv))) =
       (kTfLiteError, (), \<lambda>k. F32 (9 / 10))"
    "kTfLiteError \<noteq> kTfLiteOk"
    by (simp_all only: fw_reachable_boot stub_model_running) (simp_all add: stub_model_facts)
  show ?thesis
    using h cycle_inference_failure_continues [OF h] by blast
qed

theorem reachable_state_invariant_witness:
  "fw_reachable demo_ok demo_conv demo_running \<and> fw_phase demo_running = Running \<and>
   length (fw_audio demo_running) = kAudioFrameSize \<and> adc_configured (fw_adc demo_running) \<and>
   length (it_input (fw_interp demo_running)) = input_f_len demo_ok \<and>
   length (it_output (fw_interp demo_running)) = output_f_len demo_ok \<and>
   fw_reachable demo_bad_version demo_conv (fw_step demo_bad_version (fw_init demo_bad_version demo_conv)) \<and>
   fw_phase (fw_step demo_bad_version (fw_init demo_bad_version demo_conv)) = Halted SchemaMismatch \<and>
   adc_count (fw_adc (fw_step demo_bad_version (fw_init demo_bad_version demo_conv))) = 0"
proof -
  have b: "fw_reachable demo_bad_version demo_conv (fw_step demo_bad_version (fw_init demo_bad_version demo_conv))"
    by (rule fw_reachable_boot)
  have hb: "fw_phase (fw_step demo_bad_version (fw_init demo_bad_version demo_conv)) = Halted SchemaMismatch"
    by (simp add: fw_step_def fw_init_def fw_boot_eq Let_def stub_model_facts TFLITE_SCHEMA_VERSION_def)
  show ?thesis
    using demo_facts(1,2) b hb reachable_state_invariant [OF demo_facts(1), of SchemaMismatch]
      reachable_state_invariant [OF b, of SchemaMismatch] by blast
qed

theorem no_fault_when_shapes_fit_witness:
  "fw_reachable demo_ok demo_conv demo_running \<and> model_shape_ok demo_ok \<and>
   fw_phase demo_running \<noteq> Faulted OutOfBounds"
  using demo_facts(1,3) no_fault_when_shapes_fit [OF demo_facts(1,3), of OutOfBounds] by blast

theorem shape_mismatch_faults_witness:
  "model_version demo_short = TFLITE_SCHEMA_VERSION \<and> allocate_ok demo_short \<and>
   input_f_len demo_short < kAudioFrameSize \<and>
   fw_phase (fw_run demo_short 2 (fw_init demo_short demo_conv)) = Faulted OutOfBounds"
proof -
  have h: "model_version demo_short = TFLITE_SCHEMA_VERSION" "allocate_ok demo_short"
    "input_f_len demo_short < kAudioFrameSize"
    by (simp_all add: stub_model_facts TFLITE_SCHEMA_VERSION_def allocate_ok_def
        kTensorArenaSize_def kAudioFrameSize_def)
  show ?thesis
    using h shape_mismatch_faults [OF h, of demo_conv] by blast
qed

theorem normalised_input_range_witness:
  "fw_reachable demo_ok demo_conv demo_running \<and> fw_phase demo_running = Running \<and>
   model_shape_ok demo_ok \<and>
   0 \<le> take kAudioFrameSize (it_input (fw_interp (fw_step demo_ok demo_running))) ! 5 \<and>
   take kAudioFrameSize (it_input (fw_interp (fw_step demo_ok demo_running))) ! 5 \<le> 4095 / 2048"
proof -
  have "fw_inv demo_ok (fw_step demo_ok demo_running)"
    by (rule fw_reachable_inv [OF fw_reachable.step [OF demo_facts(1)]])
  moreover have "fw_phase (fw_step demo_ok demo_running) = Running"
    using fw_step_running_phase [OF fw_reachable_inv [OF demo_facts(1)] demo_facts(2,3)] by blast
  ultimately have "length (it_input (fw_interp (fw_step demo_ok demo_running))) = input_f_len demo_ok"
    by (simp add: fw_inv_def)
  then have "length (it_input (fw_interp (fw_step demo_ok demo_running))) = 160"
    by (simp add: stub_model_facts)
  then have "take kAudioFrameSize (it_input (fw_interp (fw_step demo_ok demo_running))) ! 5 \<in>
      set (take kAudioFrameSize (it_input (fw_interp (fw_step demo_ok demo_running))))"
    by (intro nth_mem) (simp add: kAudioFrameSize_def)
  then show ?thesis
    using demo_facts normalised_input_range [OF demo_facts] by blast
qed

theorem running_never_halts_witness:
  "fw_phase demo_running = Running \<and> fw_phase (fw_step demo_ok demo_running) \<noteq> Halted SchemaMismatch"
  using demo_facts(2) running_never_halts [OF demo_facts(2), of demo_ok SchemaMismatch] by blast

end
