(* ===== verification/Control_Spec.thy ===== *)
theory Control_Spec
  imports Firmware
begin

text \<open>
  The Control Loop against its specification (\<^verbatim>\<open>spec.md\<close>, section 4.5): the
  specification's state machine (Uninitialized, Validating, Ready, Running, Halted)
  as an inductive step relation, the abstraction of the firmware's states onto it,
  and the simulation of every step of \<open>fw_step\<close> by steps of the specification;
  and the time the loop spends in \<^verbatim>\<open>sleep_ms\<close>, counted from the trace.
\<close>

section \<open>The specified state machine\<close>

datatype spec_state = Uninitialized | Validating | Ready | SpecRunning | SpecHalted

text \<open>
  The transitions carry the specification's guards on the model (section 4.5):
  validation ends in Halted when the schema version differs or the tensors cannot
  be allocated, and in Ready only when the version matches and allocation
  succeeded.
\<close>

inductive spec_step :: "'e tflm_model \<Rightarrow> spec_state \<Rightarrow> spec_state \<Rightarrow> bool" for m where
  start: "spec_step m Uninitialized Validating"
| reject: "model_version m \<noteq> TFLITE_SCHEMA_VERSION \<or> \<not> allocate_ok m \<Longrightarrow>
    spec_step m Validating SpecHalted"
| accept: "model_version m = TFLITE_SCHEMA_VERSION \<Longrightarrow> allocate_ok m \<Longrightarrow>
    spec_step m Validating Ready"
| run: "spec_step m Ready SpecRunning"
| cycle: "spec_step m SpecRunning SpecRunning"

text \<open>
  The abstraction: the firmware's \<open>Boot\<close> is the specification's Uninitialized
  (validation happens inside one step of \<open>fw_step\<close>), \<open>Running\<close> is Running, a
  halt is Halted; a fault has no counterpart in the specification.
\<close>

fun spec_of_phase :: "phase \<Rightarrow> spec_state option" where
  "spec_of_phase Boot = Some Uninitialized"
| "spec_of_phase Running = Some SpecRunning"
| "spec_of_phase (Halted r) = Some SpecHalted"
| "spec_of_phase (Faulted e) = None"

section \<open>Time spent sleeping\<close>

fun sleep_total :: "io_event list \<Rightarrow> nat" where
  "sleep_total [] = 0"
| "sleep_total (SleepMs t # es) = t + sleep_total es"
| "sleep_total (StdioInit # es) = sleep_total es"
| "sleep_total (Print msg # es) = sleep_total es"

text \<open>A validated model with no output element, for the witness of C13.\<close>

definition demo_no_output :: "unit tflm_model" where
  "demo_no_output = (stub_model 3 160 kTfLiteOk (9 / 10))\<lparr>model_output_len := 0\<rparr>"

text \<open>The same model with a quantised output: one \<^verbatim>\<open>int8_t\<close>, for the witness of C25.\<close>

definition demo_int8_output :: "unit tflm_model" where
  "demo_int8_output = (stub_model 3 160 kTfLiteOk (9 / 10))\<lparr>model_output_type := kTfLiteInt8\<rparr>"

section \<open>Lemmas\<close>

lemma sleep_total_append [simp]:
  "sleep_total (xs @ ys) = sleep_total xs + sleep_total ys"
  by (induction xs rule: sleep_total.induct) simp_all

lemma sleep_total_decide [simp]:
  "sleep_total (decide p) = 0"
  by (simp add: decide_cases)

lemma count_fail_decide [simp]:
  "count_list (decide p) (Print infer_fail_msg) = 0"
  by (simp add: decide_cases infer_fail_msg_def footstep_msg_def)

lemma sleep_total_replicate_print [simp]:
  "sleep_total (replicate n (Print msg)) = 0"
  by (induction n) simp_all

lemma count_list_replicate_same [simp]:
  "count_list (replicate n x) x = n"
  by (induction n) simp_all

lemma spec_boot_accept:
  "model_version m = TFLITE_SCHEMA_VERSION \<Longrightarrow> allocate_ok m \<Longrightarrow>
   (spec_step m)\<^sup>*\<^sup>* Uninitialized SpecRunning"
  by (meson spec_step.intros converse_rtranclp_into_rtranclp rtranclp.rtrancl_refl)

lemma spec_boot_reject:
  "model_version m \<noteq> TFLITE_SCHEMA_VERSION \<or> \<not> allocate_ok m \<Longrightarrow>
   (spec_step m)\<^sup>*\<^sup>* Uninitialized SpecHalted"
  by (meson spec_step.intros converse_rtranclp_into_rtranclp rtranclp.rtrancl_refl)

lemma fw_boot_phase:
  "fw_phase (fw_boot m s) =
     (if model_version m \<noteq> TFLITE_SCHEMA_VERSION then Halted SchemaMismatch
      else if \<not> allocate_ok m then Halted AllocationFailed else Running)"
  by (simp add: fw_boot_eq Let_def)

text \<open>
  Runs of the loop: a property that every cycle of a running state carries forward
  holds after any number of cycles, and the loop is still running.
\<close>

lemma fw_run_Suc_last:
  "fw_run m (Suc n) s = fw_step m (fw_run m n s)"
  by (induction n arbitrary: s) simp_all

lemma fw_run_running_rule:
  assumes "fw_inv m s" "fw_phase s = Running" "model_shape_ok m" "P 0 s"
    and step: "\<And>k t. fw_inv m t \<Longrightarrow> fw_phase t = Running \<Longrightarrow> P k t \<Longrightarrow> P (Suc k) (fw_step m t)"
  shows "fw_phase (fw_run m n s) = Running \<and> fw_inv m (fw_run m n s) \<and> P n (fw_run m n s)"
proof (induction n)
  case 0
  then show ?case using assms(1,2,4) by simp
next
  case (Suc n)
  then have "fw_inv m (fw_run m n s)" "fw_phase (fw_run m n s) = Running" "P n (fw_run m n s)"
    by simp_all
  with step fw_step_running_phase [OF this(1,2) assms(3)] fw_inv_step [OF this(1)] show ?case
    unfolding fw_run_Suc_last by blast
qed

lemma fw_run_running_frames:
  assumes "fw_inv m s" "fw_phase s = Running" "model_shape_ok m"
  shows "fw_phase (fw_run m n s) = Running \<and>
         adc_count (fw_adc (fw_run m n s)) = adc_count (fw_adc s) + n * kAudioFrameSize"
  using fw_run_running_rule [OF assms,
      where P = "\<lambda>k t. adc_count (fw_adc t) = adc_count (fw_adc s) + k * kAudioFrameSize"]
    fw_step_running_phase [OF _ _ assms(3)] by simp

lemma boot_trace_counts:
  "sleep_total (fw_trace (fw_step m (fw_init m conv))) = 500 \<and>
   count_list (fw_trace (fw_step m (fw_init m conv))) (Print infer_fail_msg) = 0"
  by (simp add: fw_step_def fw_init_def fw_boot_eq Let_def boot_msg_def infer_fail_msg_def
      mismatch_msg_def alloc_fail_msg_def)

lemma fw_run_always_failing:
  assumes "fw_inv m s" "fw_phase s = Running" "model_shape_ok m"
    "\<And>e x. fst (model_eval m e x) \<noteq> kTfLiteOk"
  shows "fw_phase (fw_run m n s) = Running \<and> fw_inv m (fw_run m n s) \<and>
         fw_trace (fw_run m n s) = fw_trace s @ replicate n (Print infer_fail_msg)"
proof (rule fw_run_running_rule [OF assms(1-3)])
  fix k t
  assume t: "fw_inv m t" "fw_phase t = Running"
    and ih: "fw_trace t = fw_trace s @ replicate k (Print infer_fail_msg)"
  obtain st e' out where ev: "model_eval m (it_arena (fw_interp t)) (cycle_input t) = (st, e', out)"
    by (cases "model_eval m (it_arena (fw_interp t)) (cycle_input t)") auto
  with assms(4) [of "it_arena (fw_interp t)" "cycle_input t"] have "st \<noteq> kTfLiteOk" by simp
  then show "fw_trace (fw_step m t) = fw_trace s @ replicate (Suc k) (Print infer_fail_msg)"
    using fw_step_running [OF t assms(3) ev] ih by (simp add: Let_def replicate_append_same)
qed simp

lemma fw_boot_running_state:
  assumes "model_version m = TFLITE_SCHEMA_VERSION" "allocate_ok m"
  shows "fw_inv m (fw_step m (fw_init m conv)) \<and> fw_phase (fw_step m (fw_init m conv)) = Running"
  using fw_inv_step [OF fw_inv_init] fw_init_step_running [OF assms] by blast

text \<open>
  A running state whose output view is empty faults in a cycle whose pass succeeds.
\<close>

lemma fw_step_no_output:
  assumes "fw_inv m s" "fw_phase s = Running"
    "kAudioFrameSize \<le> input_f_len m" "output_f_len m = 0"
    "\<And>e x. fst (model_eval m e x) = kTfLiteOk"
  shows "fw_phase (fw_step m s) = Faulted OutOfBounds"
proof -
  obtain st e' out where ev: "model_eval m (it_arena (fw_interp s)) (cycle_input s) = (st, e', out)"
    by (cases "model_eval m (it_arena (fw_interp s)) (cycle_input s)") auto
  with assms(5) have "st = kTfLiteOk"
    by (metis fst_conv)
  moreover have "length (fw_audio s) = kAudioFrameSize" "adc_enabled (fw_adc s)"
    "kAudioFrameSize \<le> length (it_input (fw_interp s))" "it_output (fw_interp s) = []"
    using assms(1-4) by (simp_all add: fw_inv_def adc_configured_def)
  ultimately show ?thesis
    using ev assms(2) by (simp add: fw_step_def fw_cycle_no_output Let_def)
qed

section \<open>Properties\<close>

text \<open>
  C8. Every step of the firmware from a reachable state, for a model whose tensors
  fit, is matched by zero or more guarded steps of the specified state machine for
  the same model: start-up by Uninitialized, Validating, then Ready and Running
  (only for a model whose version matches and whose tensors were allocated) or
  Halted (only for a model that failed one of the two checks); a cycle by Running
  to Running; a halt by no step.
\<close>

theorem fw_step_simulates_spec:
  assumes "fw_reachable m conv s" "model_shape_ok m"
  shows "\<exists>a b. spec_of_phase (fw_phase s) = Some a \<and>
               spec_of_phase (fw_phase (fw_step m s)) = Some b \<and> (spec_step m)\<^sup>*\<^sup>* a b"
proof (cases "fw_phase s")
  case Boot
  then show ?thesis
    using fw_boot_phase [of m s] spec_boot_accept [of m] spec_boot_reject [of m]
    by (auto simp: fw_step_def)
next
  case Running
  then have "fw_phase (fw_step m s) = Running"
    using fw_step_running_phase [OF fw_reachable_inv [OF assms(1)] _ assms(2)] by blast
  with Running show ?thesis
    by (auto intro: spec_step.cycle)
next
  case (Halted r)
  then show ?thesis by simp
next
  case (Faulted e)
  with fw_reachable_not_faulted [OF assms] show ?thesis by blast
qed

text \<open>
  C10. When every inference pass fails the loop never sleeps again: after start-up
  and \<open>n\<close> cycles the program is still running, has printed the failure \<open>n\<close>
  times and has slept only the 500 ms of start-up. The fixed cadence of the
  specification is lost; the loop spins back to back.
\<close>

theorem persistent_failure_never_sleeps:
  assumes "model_version m = TFLITE_SCHEMA_VERSION" "allocate_ok m" "model_shape_ok m"
    "\<And>e x. fst (model_eval m e x) \<noteq> kTfLiteOk"
  shows "fw_phase (fw_run m (Suc n) (fw_init m conv)) = Running \<and>
         count_list (fw_trace (fw_run m (Suc n) (fw_init m conv))) (Print infer_fail_msg) = n \<and>
         sleep_total (fw_trace (fw_run m (Suc n) (fw_init m conv))) = 500"
proof -
  let ?b = "fw_step m (fw_init m conv)"
  have b: "fw_inv m ?b" "fw_phase ?b = Running"
    using fw_boot_running_state [OF assms(1,2)] by blast+
  show ?thesis
    using fw_run_always_failing [OF b assms(3,4), of n] boot_trace_counts [of m conv]
    by simp
qed

text \<open>
  C13. The firmware never checks that the output tensor has an element: a validated
  model whose input fits but whose output tensor is empty makes the first successful
  cycle read \<^verbatim>\<open>output->data.f[0]\<close> out of bounds.
\<close>

theorem empty_output_faults:
  assumes "model_version m = TFLITE_SCHEMA_VERSION" "allocate_ok m"
    "kAudioFrameSize \<le> input_f_len m" "output_f_len m = 0"
    "\<And>e x. fst (model_eval m e x) = kTfLiteOk"
  shows "fw_phase (fw_run m 2 (fw_init m conv)) = Faulted OutOfBounds"
proof -
  have b: "fw_inv m (fw_step m (fw_init m conv))" "fw_phase (fw_step m (fw_init m conv)) = Running"
    using fw_boot_running_state [OF assms(1,2)] by blast+
  from fw_step_no_output [OF b assms(3-5)] show ?thesis
    by (simp add: numeral_2_eq_2)
qed

text \<open>
  C25. Nor does it check the output tensor's element type: a validated model whose
  input fits and whose output tensor is \<^verbatim>\<open>int8\<close>-quantised with fewer than four
  elements (a quantised probability is one byte) makes the first successful cycle
  read \<^verbatim>\<open>output->data.f[0]\<close>, four bytes, past the tensor.
\<close>

theorem quantized_output_faults:
  assumes "model_version m = TFLITE_SCHEMA_VERSION" "allocate_ok m"
    "kAudioFrameSize \<le> input_f_len m"
    "model_output_type m = kTfLiteInt8" "model_output_len m < 4"
    "\<And>e x. fst (model_eval m e x) = kTfLiteOk"
  shows "fw_phase (fw_run m 2 (fw_init m conv)) = Faulted OutOfBounds"
proof -
  have b: "fw_inv m (fw_step m (fw_init m conv))" "fw_phase (fw_step m (fw_init m conv)) = Running"
    using fw_boot_running_state [OF assms(1,2)] by blast+
  have "output_f_len m = 0"
    using assms(4,5) by (simp add: output_f_len_def)
  from fw_step_no_output [OF b assms(3) this assms(6)] show ?thesis
    by (simp add: numeral_2_eq_2)
qed

text \<open>
  C29. The loop runs forever: from a reachable running state of a model whose
  tensors fit, after any number \<open>n\<close> of further steps the program is still running
  and has converted exactly \<open>n\<close> more frames, whatever the passes returned.
\<close>

theorem loop_runs_forever:
  assumes "fw_reachable m conv s" "fw_phase s = Running" "model_shape_ok m"
  shows "fw_phase (fw_run m n s) = Running \<and>
         adc_count (fw_adc (fw_run m n s)) = adc_count (fw_adc s) + n * kAudioFrameSize"
  using fw_run_running_frames [OF fw_reachable_inv [OF assms(1)] assms(2,3)] .

section \<open>Witnesses\<close>

theorem fw_step_simulates_spec_witness:
  "fw_reachable demo_ok demo_conv (fw_init demo_ok demo_conv) \<and> model_shape_ok demo_ok \<and>
   spec_of_phase (fw_phase (fw_init demo_ok demo_conv)) = Some Uninitialized \<and>
   spec_of_phase (fw_phase (fw_step demo_ok (fw_init demo_ok demo_conv))) = Some SpecRunning \<and>
   (spec_step demo_ok)\<^sup>*\<^sup>* Uninitialized SpecRunning"
proof -
  have r: "fw_reachable demo_ok demo_conv (fw_init demo_ok demo_conv)"
    by (rule fw_reachable.init)
  have ph: "fw_phase (fw_init demo_ok demo_conv) = Boot"
    "fw_phase (fw_step demo_ok (fw_init demo_ok demo_conv)) = Running"
    by (simp add: fw_init_def) (rule stub_model_running(4))
  show ?thesis
    using r demo_facts(3) ph fw_step_simulates_spec [OF r demo_facts(3)] by auto
qed

theorem persistent_failure_never_sleeps_witness:
  "model_version demo_fail = TFLITE_SCHEMA_VERSION \<and> allocate_ok demo_fail \<and>
   model_shape_ok demo_fail \<and> (\<forall>e x. fst (model_eval demo_fail e x) \<noteq> kTfLiteOk) \<and>
   fw_phase (fw_run demo_fail (Suc 7) (fw_init demo_fail demo_conv)) = Running \<and>
   count_list (fw_trace (fw_run demo_fail (Suc 7) (fw_init demo_fail demo_conv))) (Print infer_fail_msg) = 7 \<and>
   sleep_total (fw_trace (fw_run demo_fail (Suc 7) (fw_init demo_fail demo_conv))) = 500"
proof -
  have f: "\<And>e x. fst (model_eval demo_fail e x) \<noteq> kTfLiteOk"
    by (simp add: stub_model_facts)
  show ?thesis
    using stub_model_running(1-3) [of kTfLiteError "9 / 10"] f
      persistent_failure_never_sleeps [OF stub_model_running(1-3) [of kTfLiteError "9 / 10"] f,
        of 7 demo_conv] by blast
qed

theorem empty_output_faults_witness:
  "model_version (demo_no_output) = TFLITE_SCHEMA_VERSION \<and> allocate_ok demo_no_output \<and>
   kAudioFrameSize \<le> input_f_len demo_no_output \<and> output_f_len demo_no_output = 0 \<and>
   (\<forall>e x. fst (model_eval demo_no_output e x) = kTfLiteOk) \<and>
   fw_phase (fw_run demo_no_output 2 (fw_init demo_no_output demo_conv)) = Faulted OutOfBounds"
proof -
  have h: "model_version demo_no_output = TFLITE_SCHEMA_VERSION" "allocate_ok demo_no_output"
    "kAudioFrameSize \<le> input_f_len demo_no_output" "output_f_len demo_no_output = 0"
    "\<And>e x. fst (model_eval demo_no_output e x) = kTfLiteOk"
    by (simp_all add: demo_no_output_def stub_model_facts TFLITE_SCHEMA_VERSION_def allocate_ok_def
        kTensorArenaSize_def kAudioFrameSize_def)
  show ?thesis
    using h empty_output_faults [OF h, of demo_conv] by blast
qed

theorem quantized_output_faults_witness:
  "model_version demo_int8_output = TFLITE_SCHEMA_VERSION \<and> allocate_ok demo_int8_output \<and>
   kAudioFrameSize \<le> input_f_len demo_int8_output \<and>
   model_output_type demo_int8_output = kTfLiteInt8 \<and> model_output_len demo_int8_output < 4 \<and>
   (\<forall>e x. fst (model_eval demo_int8_output e x) = kTfLiteOk) \<and>
   fw_phase (fw_run demo_int8_output 2 (fw_init demo_int8_output demo_conv)) = Faulted OutOfBounds"
proof -
  have h: "model_version demo_int8_output = TFLITE_SCHEMA_VERSION" "allocate_ok demo_int8_output"
    "kAudioFrameSize \<le> input_f_len demo_int8_output"
    "model_output_type demo_int8_output = kTfLiteInt8" "model_output_len demo_int8_output < 4"
    "\<And>e x. fst (model_eval demo_int8_output e x) = kTfLiteOk"
    by (simp_all add: demo_int8_output_def stub_model_facts TFLITE_SCHEMA_VERSION_def allocate_ok_def
        kTensorArenaSize_def kAudioFrameSize_def)
  show ?thesis
    using h quantized_output_faults [OF h, of demo_conv] by blast
qed

theorem loop_runs_forever_witness:
  "fw_reachable demo_ok demo_conv demo_running \<and> fw_phase demo_running = Running \<and>
   model_shape_ok demo_ok \<and>
   fw_phase (fw_run demo_ok 1000 demo_running) = Running \<and>
   adc_count (fw_adc (fw_run demo_ok 1000 demo_running)) =
     adc_count (fw_adc demo_running) + 1000 * kAudioFrameSize"
  using demo_facts loop_runs_forever [OF demo_facts, of 1000] by blast

end
