(* ===== verification/Startup.thy ===== *)
theory Startup
  imports Control_Spec
begin

text \<open>
  Start-up statement by statement: \<^verbatim>\<open>main\<close>'s lines 44--75
  (\<^verbatim>\<open>src/firmware.cpp\<close>) as a small-step machine whose program counter
  \<open>boot_loc\<close> names the next statement to run. \<open>fw_boot\<close> runs the whole sequence
  in one step; here every statement is a step, so the specification's intermediate
  states (Validating while the model is checked and the tensors allocated, Ready once
  the handles are taken) are states of the model. The lemmas show that ten steps of
  this machine are \<open>fw_boot\<close>, that every statement is a guarded step (or a stutter) of the
  specified state machine, and that Ready and the loop are reached only by a model
  that passed both checks.
\<close>

section \<open>Statements of start-up\<close>

text \<open>
  The statements, in source order: \<^verbatim>\<open>stdio_init_all()\<close>, \<^verbatim>\<open>sleep_ms(500)\<close>,
  the banner, the three ADC calls, the model check of lines 55--59 (\<^verbatim>\<open>GetModel\<close>
  only takes a pointer), the construction of the static interpreter, the allocation
  of lines 69--72, the two handles of lines 74--75, then the loop; \<open>AtSpin\<close> is one
  of the two \<^verbatim>\<open>while (1);\<close>.
\<close>

datatype boot_loc =
  AtStdio | AtDelay | AtBanner | AtAdcInit | AtAdcGpio | AtAdcSelect | AtCheckModel
| AtConstruct | AtAllocate | AtHandles | AtLoop | AtSpin halt_reason

definition boot_step :: "'e tflm_model \<Rightarrow> boot_loc \<times> 'e fw_state \<Rightarrow> boot_loc \<times> 'e fw_state" where
  "boot_step m c =
     (case c of
        (l, s) \<Rightarrow>
          (case l of
             AtStdio \<Rightarrow> (AtDelay, s\<lparr>fw_trace := fw_trace s @ [StdioInit]\<rparr>)
           | AtDelay \<Rightarrow> (AtBanner, s\<lparr>fw_trace := fw_trace s @ [SleepMs 500]\<rparr>)
           | AtBanner \<Rightarrow> (AtAdcInit, s\<lparr>fw_trace := fw_trace s @ [Print boot_msg]\<rparr>)
           | AtAdcInit \<Rightarrow> (AtAdcGpio, s\<lparr>fw_adc := adc_init (fw_adc s)\<rparr>)
           | AtAdcGpio \<Rightarrow> (AtAdcSelect, s\<lparr>fw_adc := adc_gpio_init 26 (fw_adc s)\<rparr>)
           | AtAdcSelect \<Rightarrow> (AtCheckModel, s\<lparr>fw_adc := adc_select_input 0 (fw_adc s)\<rparr>)
           | AtCheckModel \<Rightarrow>
               (if model_version m \<noteq> TFLITE_SCHEMA_VERSION
                then (AtSpin SchemaMismatch, s\<lparr>fw_trace := fw_trace s @ [Print mismatch_msg]\<rparr>)
                else (AtConstruct, s))
           | AtConstruct \<Rightarrow> (AtAllocate, s\<lparr>fw_interp := micro_interpreter m\<rparr>)
           | AtAllocate \<Rightarrow>
               (case AllocateTensors m (fw_interp s) of
                  (st, it) \<Rightarrow>
                    if st \<noteq> kTfLiteOk
                    then (AtSpin AllocationFailed,
                          s\<lparr>fw_interp := it, fw_trace := fw_trace s @ [Print alloc_fail_msg]\<rparr>)
                    else (AtHandles, s\<lparr>fw_interp := it\<rparr>))
           | AtHandles \<Rightarrow> (AtLoop, s)
           | AtLoop \<Rightarrow> (AtLoop, s)
           | AtSpin r \<Rightarrow> (AtSpin r, s)))"

primrec boot_run :: "'e tflm_model \<Rightarrow> nat \<Rightarrow> boot_loc \<times> 'e fw_state \<Rightarrow> boot_loc \<times> 'e fw_state" where
  "boot_run m 0 c = c"
| "boot_run m (Suc n) c = boot_run m n (boot_step m c)"

text \<open>
  Leaving start-up: at the loop the program is running, in a spin it is halted;
  elsewhere it is still booting.
\<close>

definition boot_exit :: "boot_loc \<times> 'e fw_state \<Rightarrow> 'e fw_state" where
  "boot_exit c =
     (case fst c of
        AtLoop \<Rightarrow> (snd c)\<lparr>fw_phase := Running\<rparr>
      | AtSpin r \<Rightarrow> (snd c)\<lparr>fw_phase := Halted r\<rparr>
      | _ \<Rightarrow> snd c)"

section \<open>The specification's states\<close>

text \<open>
  The platform set-up before the model check is the specification's
  Uninitialized; the model check, the interpreter's construction and the
  allocation are Validating; the handles are taken in Ready; the loop is Running
  and a spin is Halted.
\<close>

fun spec_of_loc :: "boot_loc \<Rightarrow> spec_state" where
  "spec_of_loc AtStdio = Uninitialized"
| "spec_of_loc AtDelay = Uninitialized"
| "spec_of_loc AtBanner = Uninitialized"
| "spec_of_loc AtAdcInit = Uninitialized"
| "spec_of_loc AtAdcGpio = Uninitialized"
| "spec_of_loc AtAdcSelect = Uninitialized"
| "spec_of_loc AtCheckModel = Validating"
| "spec_of_loc AtConstruct = Validating"
| "spec_of_loc AtAllocate = Validating"
| "spec_of_loc AtHandles = Ready"
| "spec_of_loc AtLoop = SpecRunning"
| "spec_of_loc (AtSpin r) = SpecHalted"

text \<open>
  What start-up has established at each location: past the model check the schema
  version matched, past the allocation the allocation succeeded.
\<close>

definition boot_inv :: "'e tflm_model \<Rightarrow> boot_loc \<Rightarrow> bool" where
  "boot_inv m l =
     ((l \<in> {AtConstruct, AtAllocate, AtHandles, AtLoop} \<longrightarrow> model_version m = TFLITE_SCHEMA_VERSION) \<and>
      (l \<in> {AtHandles, AtLoop} \<longrightarrow> allocate_ok m))"

section \<open>Lemmas\<close>

lemma boot_run_spin [simp]:
  "boot_run m n (AtSpin r, s) = (AtSpin r, s)"
  by (induction n) (simp_all add: boot_step_def)

lemma boot_run_loop [simp]:
  "boot_run m n (AtLoop, s) = (AtLoop, s)"
  by (induction n) (simp_all add: boot_step_def)

lemma boot_inv_step:
  assumes "boot_inv m (fst c)"
  shows "boot_inv m (fst (boot_step m c))"
proof -
  obtain l s where c: "c = (l, s)" by (cases c)
  show ?thesis
    using assms unfolding c
    by (cases l) (simp_all add: boot_step_def boot_inv_def AllocateTensors_def)
qed

lemma boot_inv_run:
  "boot_inv m (fst c) \<Longrightarrow> boot_inv m (fst (boot_run m n c))"
  by (induction n arbitrary: c) (simp_all add: boot_inv_step)

lemma boot_run_Suc_last:
  "boot_run m (Suc k) c = boot_step m (boot_run m k c)"
  by (induction k arbitrary: c) simp_all

lemma boot_run_10:
  "boot_run m 10 c = boot_step m (boot_step m (boot_step m (boot_step m (boot_step m
     (boot_step m (boot_step m (boot_step m (boot_step m (boot_step m c)))))))))"
  by (simp add: boot_run_Suc_last numeral_eq_Suc)

text \<open>
  A statement run where the checks already passed is a guarded step of the
  specification, or leaves the specification's state unchanged.
\<close>

lemma boot_step_spec_step:
  assumes "boot_inv m (fst c)"
  shows "spec_of_loc (fst (boot_step m c)) = spec_of_loc (fst c) \<or>
         spec_step m (spec_of_loc (fst c)) (spec_of_loc (fst (boot_step m c)))"
proof -
  obtain l s where c: "c = (l, s)" by (cases c)
  show ?thesis
    using assms unfolding c
    by (cases l) (simp_all add: boot_step_def AllocateTensors_def boot_inv_def spec_step.simps)
qed

section \<open>Properties\<close>

text \<open>
  Start-up statement by statement is the atomic start-up step: for every
  initial state, the ten statements of lines 44--75 run one at a time leave the
  program exactly as \<open>fw_boot\<close> does (running, or halted in one of the spins with
  its message printed).
\<close>

lemma boot_steps_implement_fw_boot:
  "boot_exit (boot_run m 10 (AtStdio, s)) = fw_boot m s"
  by (simp add: boot_run_10 boot_step_def boot_exit_def fw_boot_eq Let_def AllocateTensors_def)

text \<open>
  C27. Every statement of start-up is a guarded step of the specified state machine
  for the same model, or leaves its state unchanged: however many statements have
  run, the next one starts Validating at the model check, goes to Halted only
  when the schema version differs or allocation fails, to Ready only when the
  version matches and allocation succeeded, and to Running when the handles are
  taken; the spins and the loop stay where they are.
\<close>

theorem boot_step_simulates_spec:
  "spec_of_loc (fst (boot_run m (Suc n) (AtStdio, s))) = spec_of_loc (fst (boot_run m n (AtStdio, s))) \<or>
   spec_step m (spec_of_loc (fst (boot_run m n (AtStdio, s))))
     (spec_of_loc (fst (boot_run m (Suc n) (AtStdio, s))))"
  unfolding boot_run_Suc_last
  by (rule boot_step_spec_step, rule boot_inv_run) (simp add: boot_inv_def)

text \<open>
  C28. The checks come first: however many statements start-up has run, if it has
  reached Ready or the loop then the model's schema version matched and its tensors
  were allocated.
\<close>

theorem boot_checks_before_ready:
  assumes "spec_of_loc (fst (boot_run m n (AtStdio, s))) \<in> {Ready, SpecRunning}"
  shows "model_version m = TFLITE_SCHEMA_VERSION \<and> allocate_ok m"
proof -
  have "boot_inv m (fst (boot_run m n (AtStdio, s)))"
    by (rule boot_inv_run) (simp add: boot_inv_def)
  with assms show ?thesis
    by (cases "fst (boot_run m n (AtStdio, s))") (simp_all add: boot_inv_def)
qed

section \<open>Witnesses\<close>

theorem boot_step_simulates_spec_witness:
  "spec_of_loc (fst (boot_run demo_ok 8 (AtStdio, fw_init demo_ok demo_conv))) = Validating \<and>
   spec_of_loc (fst (boot_run demo_ok 9 (AtStdio, fw_init demo_ok demo_conv))) = Ready \<and>
   (spec_of_loc (fst (boot_run demo_ok (Suc 8) (AtStdio, fw_init demo_ok demo_conv))) =
      spec_of_loc (fst (boot_run demo_ok 8 (AtStdio, fw_init demo_ok demo_conv))) \<or>
    spec_step demo_ok (spec_of_loc (fst (boot_run demo_ok 8 (AtStdio, fw_init demo_ok demo_conv))))
      (spec_of_loc (fst (boot_run demo_ok (Suc 8) (AtStdio, fw_init demo_ok demo_conv)))))"
proof -
  have n: "(9 :: nat) = Suc 8" "(8 :: nat) = Suc (Suc (Suc (Suc (Suc (Suc (Suc (Suc 0)))))))"
    by simp_all
  have h: "spec_of_loc (fst (boot_run demo_ok 8 (AtStdio, fw_init demo_ok demo_conv))) = Validating"
    "spec_of_loc (fst (boot_run demo_ok 9 (AtStdio, fw_init demo_ok demo_conv))) = Ready"
    unfolding n boot_run.simps
    by (simp_all add: boot_step_def AllocateTensors_def stub_model_facts
        TFLITE_SCHEMA_VERSION_def allocate_ok_def kTensorArenaSize_def)
  from h show ?thesis
    using boot_step_simulates_spec [of demo_ok 8 "fw_init demo_ok demo_conv"] by simp
qed

theorem boot_checks_before_ready_witness:
  "spec_of_loc (fst (boot_run demo_ok 10 (AtStdio, fw_init demo_ok demo_conv))) = SpecRunning \<and>
   model_version demo_ok = TFLITE_SCHEMA_VERSION \<and> allocate_ok demo_ok"
proof -
  have h: "spec_of_loc (fst (boot_run demo_ok 10 (AtStdio, fw_init demo_ok demo_conv))) = SpecRunning"
    by (simp add: boot_run_10 boot_step_def AllocateTensors_def stub_model_facts TFLITE_SCHEMA_VERSION_def
        allocate_ok_def kTensorArenaSize_def)
  then have "spec_of_loc (fst (boot_run demo_ok 10 (AtStdio, fw_init demo_ok demo_conv))) \<in> {Ready, SpecRunning}"
    by simp
  with h show ?thesis
    using boot_checks_before_ready by blast
qed

end
