(* ===== verification/Detector_Spec.thy ===== *)
theory Detector_Spec
  imports Control_Spec "HOL-Library.Sublist"
begin

unbundle bit_operations_syntax

text \<open>
  The whole program against an abstract detector: the specification's data flow
  (Frame Source, Preprocessor, Inference Engine Adapter, Decision Policy, one cycle
  per frame) written as a function from the converter's output and the model to the
  observable events. The \<open>k\<close>-th frame is the conversions \<open>160 k\<close> to
  \<open>160 k + 159\<close> of input 0; each frame is normalised into the input tensor, one
  pass threads the model's working memory, and the pass's status and first output
  give the cycle's events. The refinement theorems say that \<open>fw_run\<close> produces
  exactly these events for every validated model whose tensors fit, and a prefix of
  them for every validated model.
\<close>

section \<open>The abstract detector\<close>

definition frame_at :: "(nat \<Rightarrow> nat \<Rightarrow> u16) \<Rightarrow> nat \<Rightarrow> i16 list" where
  "frame_at conv k = map (\<lambda>j. conv 0 (k * kAudioFrameSize + j) AND mask 12) [0..<kAudioFrameSize]"

definition frame_input :: "'e tflm_model \<Rightarrow> (nat \<Rightarrow> nat \<Rightarrow> u16) \<Rightarrow> nat \<Rightarrow> real list" where
  "frame_input m conv k =
     map norm_sample (frame_at conv k) @ replicate (input_f_len m - kAudioFrameSize) 0"

definition cycle_events :: "tflite_status \<Rightarrow> f32 \<Rightarrow> io_event list" where
  "cycle_events st p = (if st = kTfLiteOk then decide p @ [SleepMs 10] else [Print infer_fail_msg])"

primrec detector :: "'e tflm_model \<Rightarrow> (nat \<Rightarrow> nat \<Rightarrow> u16) \<Rightarrow> nat \<Rightarrow> 'e \<Rightarrow> nat \<Rightarrow> io_event list" where
  "detector m conv k e 0 = []"
| "detector m conv k e (Suc n) =
     (case model_eval m e (frame_input m conv k) of
        (st, e', out) \<Rightarrow> cycle_events st (out 0) @ detector m conv (Suc k) e' n)"

text \<open>
  The number of the first \<open>n\<close> passes, from frame \<open>k\<close> and working memory
  \<open>e\<close>, whose status is \<^verbatim>\<open>kTfLiteOk\<close>.
\<close>

primrec passes_ok :: "'e tflm_model \<Rightarrow> (nat \<Rightarrow> nat \<Rightarrow> u16) \<Rightarrow> nat \<Rightarrow> 'e \<Rightarrow> nat \<Rightarrow> nat" where
  "passes_ok m conv k e 0 = 0"
| "passes_ok m conv k e (Suc n) =
     (case model_eval m e (frame_input m conv k) of
        (st, e', out) \<Rightarrow> (if st = kTfLiteOk then 1 else 0) + passes_ok m conv (Suc k) e' n)"

definition boot_events :: "io_event list" where
  "boot_events = [StdioInit, SleepMs 500, Print boot_msg]"

text \<open>
  The relation between a running firmware state and the detector after \<open>k\<close>
  frames with working memory \<open>e\<close>.
\<close>

definition detector_rel ::
  "'e tflm_model \<Rightarrow> (nat \<Rightarrow> nat \<Rightarrow> u16) \<Rightarrow> nat \<Rightarrow> 'e \<Rightarrow> 'e fw_state \<Rightarrow> bool" where
  "detector_rel m conv k e s =
     (fw_inv m s \<and> fw_phase s = Running \<and> adc_count (fw_adc s) = k * kAudioFrameSize \<and>
      adc_conv (fw_adc s) = conv \<and> it_arena (fw_interp s) = e \<and>
      drop kAudioFrameSize (it_input (fw_interp s)) = replicate (input_f_len m - kAudioFrameSize) 0)"

section \<open>Lemmas\<close>

lemma adc_samples_map:
  "adc_samples a n = map (\<lambda>j. adc_sample a (adc_count a + j)) [0..<n]"
  by (rule nth_equalityI) (simp_all add: nth_adc_samples)

lemma cycle_input_frame:
  assumes "detector_rel m conv k e s"
  shows "cycle_input s = frame_input m conv k"
proof -
  have "fw_inv m s" "fw_phase s = Running"
    using assms by (simp_all add: detector_rel_def)
  then have "adc_input (fw_adc s) = 0"
    by (simp add: fw_inv_def adc_configured_def)
  then have "cycle_frame s = frame_at conv k"
    using assms by (simp add: detector_rel_def cycle_frame_def frame_at_def adc_samples_map
        adc_sample_def)
  then show ?thesis
    using assms by (simp add: detector_rel_def cycle_input_def frame_input_def)
qed

lemma detector_rel_step:
  assumes "detector_rel m conv k e s" "model_shape_ok m"
    "model_eval m e (frame_input m conv k) = (st, e', out)"
  shows "detector_rel m conv (Suc k) e' (fw_step m s) \<and>
         fw_trace (fw_step m s) = fw_trace s @ cycle_events st (out 0)"
proof -
  have inv: "fw_inv m s" and run: "fw_phase s = Running" and ar: "it_arena (fw_interp s) = e"
    using assms(1) by (simp_all add: detector_rel_def)
  have ev: "model_eval m (it_arena (fw_interp s)) (cycle_input s) = (st, e', out)"
    using assms(3) ar cycle_input_frame [OF assms(1)] by simp
  have lin: "kAudioFrameSize \<le> length (it_input (fw_interp s))"
    using inv run assms(2) by (simp add: fw_inv_def model_shape_ok_def)
  have "fw_inv m (fw_step m s)"
    using inv by (rule fw_inv_step)
  with fw_step_running [OF inv run assms(2) ev] assms(1) lin show ?thesis
    by (simp add: detector_rel_def Let_def cycle_events_def adc_skip_def cycle_input_def
        algebra_simps)
qed

lemma detector_rel_run:
  assumes "detector_rel m conv k e s" "model_shape_ok m"
  shows "fw_trace (fw_run m n s) = fw_trace s @ detector m conv k e n"
  using assms(1)
proof (induction n arbitrary: k e s)
  case 0
  then show ?case by simp
next
  case (Suc n)
  obtain st e' out where ev: "model_eval m e (frame_input m conv k) = (st, e', out)"
    by (cases "model_eval m e (frame_input m conv k)") auto
  from detector_rel_step [OF Suc.prems assms(2) ev]
  have rel: "detector_rel m conv (Suc k) e' (fw_step m s)"
    and tr: "fw_trace (fw_step m s) = fw_trace s @ cycle_events st (out 0)" by simp_all
  from rel have "fw_trace (fw_run m n (fw_step m s)) =
      fw_trace (fw_step m s) @ detector m conv (Suc k) e' n"
    by (rule Suc.IH)
  with tr ev show ?case by simp
qed

lemma detector_rel_boot:
  assumes "model_version m = TFLITE_SCHEMA_VERSION" "allocate_ok m"
  shows "detector_rel m conv 0 (model_arena_init m) (fw_step m (fw_init m conv)) \<and>
         fw_trace (fw_step m (fw_init m conv)) = boot_events"
  using assms fw_inv_step [OF fw_inv_init, of m conv]
  by (simp add: detector_rel_def fw_step_def fw_init_def fw_boot_eq Let_def AllocateTensors_def
      micro_interpreter_def adc_reset_def adc_init_def adc_gpio_init_def adc_select_input_def
      boot_events_def)

lemma detector_rel_step_or_fault:
  assumes "detector_rel m conv k e s" "model_eval m e (frame_input m conv k) = (st, e', out)"
  shows "(detector_rel m conv (Suc k) e' (fw_step m s) \<and>
          fw_trace (fw_step m s) = fw_trace s @ cycle_events st (out 0)) \<or>
         ((\<exists>f. fw_phase (fw_step m s) = Faulted f) \<and> fw_trace (fw_step m s) = fw_trace s)"
proof -
  have inv: "fw_inv m s" and run: "fw_phase s = Running" and ar: "it_arena (fw_interp s) = e"
    using assms(1) by (simp_all add: detector_rel_def)
  have len: "length (fw_audio s) = kAudioFrameSize" and en: "adc_enabled (fw_adc s)"
    and lin: "length (it_input (fw_interp s)) = input_f_len m"
    and lout: "length (it_output (fw_interp s)) = output_f_len m"
    using inv run by (simp_all add: fw_inv_def adc_configured_def)
  have ev: "model_eval m (it_arena (fw_interp s)) (cycle_input s) = (st, e', out)"
    using assms(2) ar cycle_input_frame [OF assms(1)] by simp
  consider (short) "input_f_len m < kAudioFrameSize"
    | (noout) "kAudioFrameSize \<le> input_f_len m" "output_f_len m = 0"
    | (fits) "model_shape_ok m"
    by (fastforce simp: model_shape_ok_def)
  then show ?thesis
  proof cases
    case short
    then show ?thesis
      using len en lin run by (simp add: fw_step_def fw_cycle_short_input)
  next
    case noout
    have "fw_inv m (fw_step m s)"
      using inv by (rule fw_inv_step)
    with fw_cycle_no_output [OF len en _ _ ev] noout lin lout assms(1) run show ?thesis
      by (simp add: fw_step_def detector_rel_def Let_def cycle_events_def adc_skip_def
          cycle_input_def algebra_simps)
  next
    case fits
    then show ?thesis
      using detector_rel_step [OF assms(1) fits assms(2)] by blast
  qed
qed

lemma detector_rel_prefix:
  assumes "detector_rel m conv k e s"
  shows "prefix (fw_trace (fw_run m n s)) (fw_trace s @ detector m conv k e n)"
  using assms
proof (induction n arbitrary: k e s)
  case 0
  then show ?case by simp
next
  case (Suc n)
  obtain st e' out where ev: "model_eval m e (frame_input m conv k) = (st, e', out)"
    by (cases "model_eval m e (frame_input m conv k)") auto
  from detector_rel_step_or_fault [OF Suc.prems ev] show ?case
  proof
    assume "detector_rel m conv (Suc k) e' (fw_step m s) \<and>
            fw_trace (fw_step m s) = fw_trace s @ cycle_events st (out 0)"
    with Suc.IH [of "Suc k" e' "fw_step m s"] ev show ?thesis by simp
  next
    assume f: "(\<exists>f. fw_phase (fw_step m s) = Faulted f) \<and> fw_trace (fw_step m s) = fw_trace s"
    then have "fw_run m n (fw_step m s) = fw_step m s"
      by (intro fw_run_fixpoint) (auto simp: fw_step_def [of m "fw_step m s"])
    with f show ?thesis by (simp add: prefixI)
  qed
qed

lemma sleep_total_detector:
  "sleep_total (detector m conv k e n) = 10 * passes_ok m conv k e n"
  by (induction n arbitrary: k e) (simp_all add: cycle_events_def split: prod.split)

section \<open>Properties\<close>

text \<open>
  C1. The firmware implements the abstract detector: for every model that passes
  validation and whose tensors fit, and every behaviour of the converter, the
  trace of start-up and \<open>n\<close> cycles is the start-up events followed by, for each
  frame \<open>k < n\<close>, the events of one pass over the normalised frame \<open>k\<close> with the
  working memory the previous passes left: the decision on the first output and a
  10 ms delay when the pass succeeds, the failure report otherwise.
\<close>

theorem firmware_refines_detector:
  assumes "model_version m = TFLITE_SCHEMA_VERSION" "allocate_ok m" "model_shape_ok m"
  shows "fw_trace (fw_run m (Suc n) (fw_init m conv)) =
         boot_events @ detector m conv 0 (model_arena_init m) n"
  using detector_rel_run [OF conjunct1 [OF detector_rel_boot [OF assms(1,2)]] assms(3), of n]
    conjunct2 [OF detector_rel_boot [OF assms(1,2), of conv]]
  by simp

text \<open>
  C23. Whatever the sizes and types of its tensors, a validated model never makes the
  firmware emit an event the abstract detector would not: the trace of start-up and
  \<open>n\<close> cycles is a prefix of the start-up events followed by the detector's events.
  A cycle that faults (a short input tensor, an empty output view) stops the trace
  there; until then every cycle is the detector's.
\<close>

theorem firmware_trace_prefix_of_detector:
  assumes "model_version m = TFLITE_SCHEMA_VERSION" "allocate_ok m"
  shows "prefix (fw_trace (fw_run m (Suc n) (fw_init m conv)))
           (boot_events @ detector m conv 0 (model_arena_init m) n)"
  using detector_rel_prefix [OF conjunct1 [OF detector_rel_boot [OF assms, of conv]], of n]
    conjunct2 [OF detector_rel_boot [OF assms, of conv]]
  by simp

text \<open>
  C11. The time the program spends in \<^verbatim>\<open>sleep_ms\<close>: for a validated model whose
  tensors fit, start-up and \<open>n\<close> cycles sleep 500 ms plus 10 ms for every pass of
  the \<open>n\<close> whose status is \<^verbatim>\<open>kTfLiteOk\<close>; a pass that fails adds no delay.
\<close>

theorem sleep_accounting:
  assumes "model_version m = TFLITE_SCHEMA_VERSION" "allocate_ok m" "model_shape_ok m"
  shows "sleep_total (fw_trace (fw_run m (Suc n) (fw_init m conv))) =
         500 + 10 * passes_ok m conv 0 (model_arena_init m) n"
  using detector_rel_run [OF conjunct1 [OF detector_rel_boot [OF assms(1,2)]] assms(3), of n]
    conjunct2 [OF detector_rel_boot [OF assms(1,2), of conv]]
  by (simp add: sleep_total_detector boot_events_def)

section \<open>Witnesses\<close>

theorem firmware_refines_detector_witness:
  "model_version demo_ok = TFLITE_SCHEMA_VERSION \<and> allocate_ok demo_ok \<and> model_shape_ok demo_ok \<and>
   fw_trace (fw_run demo_ok (Suc 3) (fw_init demo_ok demo_conv)) =
     boot_events @ detector demo_ok demo_conv 0 (model_arena_init demo_ok) 3"
  using stub_model_running(1-3) [of kTfLiteOk "9 / 10"]
    firmware_refines_detector [OF stub_model_running(1-3) [of kTfLiteOk "9 / 10"], of 3 demo_conv]
  by blast

theorem firmware_trace_prefix_of_detector_witness:
  "model_version demo_short = TFLITE_SCHEMA_VERSION \<and> allocate_ok demo_short \<and>
   prefix (fw_trace (fw_run demo_short (Suc 3) (fw_init demo_short demo_conv)))
     (boot_events @ detector demo_short demo_conv 0 (model_arena_init demo_short) 3)"
proof -
  have h: "model_version demo_short = TFLITE_SCHEMA_VERSION" "allocate_ok demo_short"
    by (simp_all add: stub_model_facts TFLITE_SCHEMA_VERSION_def allocate_ok_def kTensorArenaSize_def)
  show ?thesis
    using h firmware_trace_prefix_of_detector [OF h, of 3 demo_conv] by blast
qed

theorem sleep_accounting_witness:
  "model_version demo_fail = TFLITE_SCHEMA_VERSION \<and> allocate_ok demo_fail \<and>
   model_shape_ok demo_fail \<and>
   sleep_total (fw_trace (fw_run demo_fail (Suc 3) (fw_init demo_fail demo_conv))) =
     500 + 10 * passes_ok demo_fail demo_conv 0 (model_arena_init demo_fail) 3"
  using stub_model_running(1-3) [of kTfLiteError "9 / 10"]
    sleep_accounting [OF stub_model_running(1-3) [of kTfLiteError "9 / 10"], of 3 demo_conv]
  by blast

end
