(* ===== verification/Spec2Isabelle.thy ===== *)
theory Spec2Isabelle
  imports Startup Detector_Spec
begin

text \<open>
  \<^bold>\<open>Verification of the footstep detector firmware.\<close>

  The program (\<^verbatim>\<open>src/firmware.cpp\<close>, one file) runs on an RP2040: it samples a
  microphone on ADC input 0 (GP26), normalises each frame of 160 samples, runs one
  TensorFlow Lite Micro inference pass per frame in a fixed 128 KiB arena, and prints
  \<^verbatim>\<open>Footstep detected!\<close> when the model's single output exceeds 0.5. Its parts and
  how they interact:
  \<^item> Frame Source: the ADC (Pico SDK) and \<^verbatim>\<open>read_microphone\<close>, which fills the
    global \<^verbatim>\<open>audio_buffer\<close>;
  \<^item> Preprocessor: \<^verbatim>\<open>preprocess_audio\<close> and the identical loop \<^verbatim>\<open>main\<close> inlines,
    which writes the normalised frame into the input tensor;
  \<^item> Inference Engine Adapter: the model, the arena and the interpreter calls;
  \<^item> Decision Policy: \<^verbatim>\<open>prob > 0.5f\<close> and \<^verbatim>\<open>on_footstep_detected\<close>;
  \<^item> Control Loop: \<^verbatim>\<open>main\<close>, start-up then \<^verbatim>\<open>while (1)\<close>.
  Data flows linearly through one cycle; the loop owns the sequencing and the start-up
  validation. All state is global and single-threaded.

  \<^bold>\<open>Theories.\<close>
  \<^item> \<open>Prelude\<close>: \<^verbatim>\<open>int16_t\<close>/\<^verbatim>\<open>uint16_t\<close> as \<open>16 word\<close>; the faults a
    C step can end in (\<open>OutOfBounds\<close>, \<open>AdcHang\<close>); the observable effects
    (\<open>StdioInit\<close>, \<open>Print\<close>, \<open>SleepMs\<close>); checked array accesses \<open>c_store\<close> and
    \<open>c_load\<close> (a C array access out of range is undefined, so it is a fault here,
    never an unspecified HOL value); shared list and word lemmas.
  \<^item> \<open>Frame_Source\<close>: the interface between the Frame Source and its sensor:
    \<open>read_microphone_loop\<close> (lines 31--33)
    over any read primitive \<open>rd\<close>, the specification's channel contract
    \<open>channel_contract\<close> (one sample per call, the channel advanced once per call, a
    fault when not ready) and \<open>channel_samples\<close>, the next \<open>n\<close> samples of a
    channel; the loop's lemmas are proved for every primitive meeting the contract.
  \<^item> \<open>Pico_ADC\<close>: the implementation of that interface, the ADC as a record \<open>adc_state\<close> (enabled, configured pins,
    \<^verbatim>\<open>AINSEL\<close>, the unknown conversion stream, the conversion count) with
    \<open>adc_init\<close>, \<open>adc_gpio_init\<close>, \<open>adc_select_input\<close>, \<open>adc_read\<close> modelled
    from the SDK's contract (a read masks \<^verbatim>\<open>RESULT\<close> to 12 bits and hangs on a
    disabled converter), the view \<open>adc_samples\<close> of a run of reads, and the
    lemma that \<open>adc_read\<close> meets the channel contract.
  \<^item> \<open>Sensor\<close>: \<open>read_microphone\<close> (lines 29--34), the loop of
    \<open>Frame_Source\<close> over \<^verbatim>\<open>adc_read\<close>, and its closed form obtained from the
    interface's lemma and the SDK's discharge of the contract.
  \<^item> \<open>Preprocess\<close>: \<open>norm_sample\<close> (\<^verbatim>\<open>raw[i] / 2048.0f\<close>),
    \<open>preprocess_loop\<close>/\<open>preprocess_audio\<close> (lines 37--41), and
    \<open>main_preprocess\<close>, the inlined loop of lines 82--84 as a fold over the indices.
  \<^item> \<open>Decision\<close>: binary32 values as the comparison sees them (\<open>f32\<close>: finite,
    infinite, NaN), IEEE ordered \<open>f32_gt\<close>, \<open>on_footstep_detected\<close> and
    \<open>decide\<close> (lines 24--26, 95--97).
  \<^item> \<open>Inference\<close>: \<open>tflite_status\<close>, \<open>tflite_type\<close> with
    \<open>TfLiteTypeSizeOf\<close>, \<open>TFLITE_SCHEMA_VERSION\<close> (3), \<open>kTensorArenaSize\<close>,
    the model as a record \<open>tflm_model\<close> of what the firmware observes (version,
    arena need, operator resolution, element type and count of each tensor, one pass
    as a function of the working memory \<open>'e\<close> and the input), a tensor's bytes and
    the extent \<open>data_f_len\<close> of its \<^verbatim>\<open>data.f\<close> view (\<open>input_f_len\<close>,
    \<open>output_f_len\<close> for the handles of lines 74--75), and \<open>micro_interpreter\<close>,
    \<open>AllocateTensors\<close>, \<open>Invoke\<close> from the library's contract. The client lemmas
    are stated for every \<open>'e\<close> and every model.
  \<^item> \<open>Firmware\<close>: the globals as the record \<open>fw_state\<close> with a \<open>phase\<close>
    (\<open>Boot\<close>, \<open>Running\<close>, \<open>Halted\<close> for the two \<^verbatim>\<open>while (1);\<close>, \<open>Faulted\<close>
    for undefined behaviour), \<open>fw_boot\<close> (lines 44--75 as one step), \<open>fw_cycle\<close>
    (one loop iteration, lines 78--99, with the \<^verbatim>\<open>continue\<close> of line 89),
    \<open>fw_step\<close>, \<open>fw_run\<close> (\<open>n\<close> steps) and the inductive \<open>fw_reachable\<close>; the
    invariant \<open>fw_inv\<close> and the closed forms of each phase; the properties C2--C7,
    C9, C12, C14--C16, C24 and C26; the stub models of the specification's
    test scenario, used only by the witnesses.
  \<^item> \<open>Control_Spec\<close>: the specification's state machine of section 4.5 as the
    inductive \<open>spec_step\<close> over \<open>spec_state\<close>, its transitions out of
    Validating guarded by the model's schema version and allocation, the abstraction
    \<open>spec_of_phase\<close> of the firmware's phases, and \<open>sleep_total\<close>, the delay
    time recorded in a trace; the induction rule for runs of the loop; the
    properties C8, C10, C13, C25 and C29.
  \<^item> \<open>Startup\<close>: start-up statement by statement, \<open>boot_step\<close> over the
    program counter \<open>boot_loc\<close> (lines 44--75), \<open>boot_run\<close>, \<open>boot_exit\<close>, and
    the abstraction \<open>spec_of_loc\<close> onto the specification's states, where
    Validating and Ready are states of their own; the lemma that ten statements are
    \<open>fw_boot\<close>; C27 and C28.
  \<^item> \<open>Detector_Spec\<close>: the abstract detector, the specification's data flow as a
    function: \<open>frame_at\<close> (the \<open>k\<close>-th frame of input 0), \<open>frame_input\<close>
    (its normalisation in the input tensor), \<open>cycle_events\<close> and the recursive
    \<open>detector\<close>, which threads the model's working memory from pass to pass; the
    relation \<open>detector_rel\<close> between running states and the detector, and
    the step of that relation for tensors of any size, which either continues it or
    faults without output; \<open>passes_ok\<close>, the number of successful passes of
    the detector; C1, C11 and C23.

  \<^bold>\<open>What the lemmas show.\<close> The whole program refines the abstract detector: for
  every validated model with fitting tensors and every behaviour of the converter,
  its trace is the start-up events followed by the detector's events (C1); for
  every validated model, whatever its tensors, the trace is a prefix of those
  events, so a faulting cycle cuts the trace short and no event the detector would
  not emit ever appears (C23). Start-up halts exactly on a schema mismatch or an
  allocation failure, and a halted program never converts a sample nor runs a pass
  (C2, C3). One cycle reads exactly the next 160 conversions, normalises them into
  the input tensor, and decides on \<^verbatim>\<open>output[0]\<close> followed by a 10 ms delay
  (C4); a failed pass is reported and the loop goes on, without the delay (C5,
  C16), forever: after any number of further steps it is still running and has read
  as many more frames (C29). The reachable states keep a full frame buffer, a
  configured ADC and the allocated tensor sizes (C6); with tensors of the sizes the
  code assumes nothing faults (C7), with a smaller input tensor or an empty output
  tensor the first cycle accesses out of bounds (C12, C13), and so does an
  \<^verbatim>\<open>int8\<close>-quantised input or output tensor, since the code reads both through
  \<^verbatim>\<open>data.f\<close> without checking their type (C24, C25). Every step of the firmware
  from a reachable state is simulated by guarded steps of the specification's state
  machine for the same model, so the loop is entered only by a model that passed
  both checks (C8). End to end, a constant output above one half gives one event
  per cycle and none otherwise (C9), at most one event per step (C15). The delays
  total 500 ms plus 10 ms per pass whose status was \<^verbatim>\<open>kTfLiteOk\<close>, counted on
  the detector's passes, not on the trace (C11), so a model that always fails makes
  the loop spin without any delay (C10). The normalised frame lies in
  \<open>[0, 4095/2048]\<close> (C14), and storing \<^verbatim>\<open>adc_read()\<close> into the \<^verbatim>\<open>int16_t\<close>
  buffer never wraps: every sample is in \<open>[0, 4096)\<close> (C26). Per component: for
  every read primitive meeting the channel contract the Frame Source's loop delivers
  the channel's next \<open>n\<close> samples in order or faults before delivering anything,
  never a short frame (C30), and \<^verbatim>\<open>adc_read\<close> meets the contract, so
  \<open>read_microphone\<close> refines "the next \<open>n\<close> conversions" and delivers 12-bit
  codes (C17, C18); the inlined loop equals \<open>preprocess_audio\<close>, which refines a
  map (C19, C20); the decision is the strict threshold, NaN never firing (C21); the
  normalisation's bounds (C22). Start-up run statement by statement is
  \<open>fw_boot\<close> (lemma \<open>boot_steps_implement_fw_boot\<close>); from the first
  statement, every statement is a guarded step or a stutter of the specified
  machine, through Validating and Ready (C27), and Ready is reached only after both
  checks passed (C28).

  \<^bold>\<open>Bounds and fuel.\<close> Every loop of the source is bounded by its counter: the
  recursive models are \<^theory_text>\<open>function\<close>s with the measure \<open>size - i\<close> or folds
  over \<open>[0..<size]\<close>, so they are total. The \<^verbatim>\<open>while (1)\<close> loop never ends by design,
  so it is the step function \<open>fw_step\<close>, iterated any number of times by
  \<open>fw_run\<close> and closed under steps by \<open>fw_reachable\<close>; start-up takes exactly
  ten statements (\<open>boot_run\<close> 10); no fuel is needed. The two
  \<^verbatim>\<open>while (1);\<close> of lines 58 and 71 are the terminal phase \<open>Halted\<close>, a state
  that every later step leaves unchanged; in C++ before C++26 an empty infinite loop
  without side effects is undefined behaviour (the forward-progress rule), so this
  is the behaviour the code means and the compilers used in practice give, not one
  the language guarantees (a finding). Binary32 arithmetic is exact
  where the code uses it (an \<^verbatim>\<open>int16_t\<close> divided by 2048), so normalised values
  are reals; the model's output is any \<open>f32\<close>.

  \<^bold>\<open>Not modelled.\<close> The operators of TensorFlow Lite Micro and the numbers the
  model computes (an arbitrary function of working memory and input); the model blob
  (\<^verbatim>\<open>model_data.h\<close>, not in the repository) beyond the fields above; the layout of
  the arena (whether the tensors fit is one number, the model's need, against
  \<^verbatim>\<open>kTensorArenaSize\<close>: the repository holds no code that places tensors, so a
  byte accounting would model the library, not the program) and what an access past
  a tensor but inside the arena would overwrite (it is a fault here); quantisation
  parameters and the \<^verbatim>\<open>TfLiteType\<close> constructors after \<^verbatim>\<open>kTfLiteFloat64\<close>;
  wall-clock time: delays are trace events, and neither the duration of a pass nor
  the ADC's conversion time is modelled, so the rate at which samples are taken (the
  code never paces \<^verbatim>\<open>adc_read\<close> to \<^verbatim>\<open>kAudioSampleRate\<close>, which it never uses)
  is a finding, not a theorem; the console's buffering and \<^verbatim>\<open>printf\<close>'s return
  value, which the code ignores; the \<^verbatim>\<open>int\<close> loop counters are naturals, since
  they run from 0 to at most 160 and never approach the width of \<^verbatim>\<open>int\<close>. The
  initial contents of allocated tensors are zero here, the library leaves them
  unspecified; and \<open>Invoke\<close> leaves the input tensor as it was, while the
  library may reuse the input's memory for intermediate tensors. Both are modelling
  choices, and C1's detector depends on them: when the input tensor is longer than
  a frame, the code writes only its first 160 elements, and every pass sees zeros in
  the rest only because both choices hold. For an input tensor of exactly one frame
  (the model the code is written for) neither matters. The lines of
  \<^verbatim>\<open>src/firmware.cpp\<close> that no definition translates are the includes, comments
  and blank lines.

  Platform I/O (\<^verbatim>\<open>stdio_init_all\<close>, \<^verbatim>\<open>printf\<close>, \<^verbatim>\<open>sleep_ms\<close>) is the
  observable trace: each call the code makes is one event, in the order the code makes
  it, and nothing the code does depends on what these calls return; their
  implementation (the SDK's console and timer) is not in the repository.

  \<^bold>\<open>Status.\<close> Every function and statement of the source is translated; what is
  left out above is outside the repository or not observable by the program. The
  whole-program refinement covers models whose tensors fit (C1) and, as a trace
  prefix, every validated model (C23).
\<close>

end
